theory Spec2Isabelle
  imports Complex_Main "HOL-Library.AList" "HOL-Library.Multiset"
begin


section \<open>JavaScript strings\<close>

text \<open>
  A JavaScript string is modelled as a \<^typ>\<open>string\<close>: one \<^typ>\<open>char\<close> stands for one
  UTF-16 code unit below 256.
\<close>

fun startsWith :: "string \<Rightarrow> string \<Rightarrow> bool" where
  "startsWith s [] = True"
| "startsWith [] (p # ps) = False"
| "startsWith (c # cs) (p # ps) = (c = p \<and> startsWith cs ps)"

text \<open>\<^verbatim>\<open>s.includes(sub)\<close>\<close>

fun str_includes :: "string \<Rightarrow> string \<Rightarrow> bool" where
  "str_includes [] sub = (sub = [])"
| "str_includes (c # cs) sub = (startsWith (c # cs) sub \<or> str_includes cs sub)"

section \<open>Values decoded by JSON.parse\<close>

text \<open>
  An object is the list of its own properties, each name once (where a JSON text repeats a
  name, \<^verbatim>\<open>JSON.parse\<close> keeps the last value).
\<close>

datatype json =
    JNull
  | JBool bool
  | JNum rat
  | JStr string
  | JArr "json list"
  | JObj "(string \<times> json) list"

text \<open>A JavaScript value that came out of a decoded reply: \<open>None\<close> is \<^verbatim>\<open>undefined\<close>.\<close>

type_synonym jsval = "json option"

datatype error = OpenAIKeyRequired | TypeError | NoSubmissions

fun truthy :: "jsval \<Rightarrow> bool" where
  "truthy None = False"
| "truthy (Some JNull) = False"
| "truthy (Some (JBool b)) = b"
| "truthy (Some (JNum n)) = (n \<noteq> 0)"
| "truthy (Some (JStr s)) = (s \<noteq> [])"
| "truthy (Some (JArr xs)) = True"
| "truthy (Some (JObj kvs)) = True"

text \<open>
  \<^verbatim>\<open>x.name\<close> for the property names the orchestrator reads (none of them is a built-in
  property of a string, number, boolean or array): reading a property of \<^verbatim>\<open>undefined\<close>
  or \<^verbatim>\<open>null\<close> throws a TypeError.
\<close>

fun getProp :: "jsval \<Rightarrow> string \<Rightarrow> error + jsval" where
  "getProp None n = Inl TypeError"
| "getProp (Some JNull) n = Inl TypeError"
| "getProp (Some (JObj kvs)) n = Inr (map_of kvs n)"
| "getProp (Some v) n = Inr None"

text \<open>\<^verbatim>\<open>x[0]\<close>\<close>

fun index0 :: "jsval \<Rightarrow> error + jsval" where
  "index0 None = Inl TypeError"
| "index0 (Some JNull) = Inl TypeError"
| "index0 (Some (JArr xs)) = Inr (case xs of [] \<Rightarrow> None | x # _ \<Rightarrow> Some x)"
| "index0 (Some (JStr s)) = Inr (case s of [] \<Rightarrow> None | c # _ \<Rightarrow> Some (JStr [c]))"
| "index0 (Some (JObj kvs)) = Inr (map_of kvs ''0'')"
| "index0 (Some v) = Inr None"

text \<open>\<^verbatim>\<open>x?.name\<close>\<close>

fun optProp :: "jsval \<Rightarrow> string \<Rightarrow> error + jsval" where
  "optProp None n = Inr None"
| "optProp (Some JNull) n = Inr None"
| "optProp x n = getProp x n"

text \<open>\<^verbatim>\<open>result.a || result.scores[0]?.b\<close>\<close>

definition orFirstScore :: "json \<Rightarrow> string \<Rightarrow> string \<Rightarrow> error + jsval" where
  "orFirstScore result a b =
     (case getProp (Some result) a of
        Inl e \<Rightarrow> Inl e
      | Inr w \<Rightarrow>
          if truthy w then Inr w
          else (case getProp (Some result) ''scores'' of
                  Inl e \<Rightarrow> Inl e
                | Inr sc \<Rightarrow>
                    (case index0 sc of
                       Inl e \<Rightarrow> Inl e
                     | Inr x \<Rightarrow> optProp x b)))"

section \<open>MultiLLMOrchestrator\<close>

datatype adapter = OpenAI | Claude | Grok | Llama | DeepSeek | Gemini | Mistral

text \<open>
  The fields of the class: a client field is \<open>True\<close> when the constructor created the
  client.
\<close>

record orchestrator =
  openai :: bool
  anthropic :: bool
  grok :: bool
  llama :: bool
  deepseek :: bool
  gemini :: bool
  mistral :: bool
  availableModels :: "string list"

text \<open>\<^verbatim>\<open>process.env.K && !process.env.K.includes('your')\<close>\<close>

definition keyValid :: "string option \<Rightarrow> bool" where
  "keyValid k = (case k of None \<Rightarrow> False | Some s \<Rightarrow> s \<noteq> [] \<and> \<not> str_includes s ''your'')"

text \<open>The constructor, from the API key of each provider in the process environment.\<close>

definition constructor :: "(adapter \<Rightarrow> string option) \<Rightarrow> error + orchestrator" where
  "constructor env =
     (let o1 = keyValid (env OpenAI); o2 = keyValid (env Claude); o3 = keyValid (env Grok);
          o4 = keyValid (env Llama); o5 = keyValid (env DeepSeek); o6 = keyValid (env Gemini);
          o7 = keyValid (env Mistral)
      in if \<not> o1 then Inl OpenAIKeyRequired
         else Inr \<lparr> openai = o1, anthropic = o2, grok = o3, llama = o4, deepseek = o5,
                    gemini = o6, mistral = o7,
                    availableModels =
                      (if o1 then [''openai''] else []) @ (if o2 then [''claude''] else []) @
                      (if o3 then [''grok''] else []) @ (if o4 then [''llama''] else []) @
                      (if o5 then [''deepseek''] else []) @ (if o6 then [''gemini''] else []) @
                      (if o7 then [''mistral''] else []) \<rparr>)"

text \<open>
  The adapters \<^verbatim>\<open>generate\<close> launches, in the order of its seven \<^verbatim>\<open>if\<close> statements:
  \<^verbatim>\<open>this.openai && this.availableModels.includes('openai')\<close> and so on.
\<close>

definition enabled :: "orchestrator \<Rightarrow> adapter list" where
  "enabled orch =
     (if openai orch \<and> ''openai'' \<in> set (availableModels orch) then [OpenAI] else []) @
     (if anthropic orch \<and> ''claude'' \<in> set (availableModels orch) then [Claude] else []) @
     (if grok orch \<and> ''grok'' \<in> set (availableModels orch) then [Grok] else []) @
     (if llama orch \<and> ''llama'' \<in> set (availableModels orch) then [Llama] else []) @
     (if deepseek orch \<and> ''deepseek'' \<in> set (availableModels orch) then [DeepSeek] else []) @
     (if gemini orch \<and> ''gemini'' \<in> set (availableModels orch) then [Gemini] else []) @
     (if mistral orch \<and> ''mistral'' \<in> set (availableModels orch) then [Mistral] else [])"

record submission =
  model :: string
  code :: string
  reasoning :: string
  executionTime :: int

fun modelName :: "adapter \<Rightarrow> string" where
  "modelName OpenAI = ''OpenAI GPT-4o''"
| "modelName Claude = ''Claude 3.5 Sonnet''"
| "modelName Grok = ''Grok''"
| "modelName Llama = ''Llama-3.1-405B''"
| "modelName DeepSeek = ''DeepSeek-Coder-V3''"
| "modelName Gemini = ''Gemini-1.5-Pro''"
| "modelName Mistral = ''Mistral-Large-2''"

fun modelReasoning :: "adapter \<Rightarrow> string" where
  "modelReasoning OpenAI = ''Optimized for speed and reliability''"
| "modelReasoning Claude = ''Excellent UI/UX design and code structure''"
| "modelReasoning Grok = ''Creative problem-solving and reasoning''"
| "modelReasoning Llama = ''Superior coding logic and architecture''"
| "modelReasoning DeepSeek = ''Specialized in clean, efficient code generation''"
| "modelReasoning Gemini = ''Strong at complex UI logic and interactions''"
| "modelReasoning Mistral = ''Balanced performance across all tasks''"

text \<open>
  What the remote services do is the environment of a run. A generation call either
  returns a text after some milliseconds or throws (timeout, transport error, non-success
  response). A judge call throws, returns a text that \<^verbatim>\<open>JSON.parse\<close> rejects, or
  returns a text that \<^verbatim>\<open>JSON.parse\<close> decodes to a value.
\<close>

datatype invocation = Completed string int | Threw

datatype judge_reply = InvokeFailed | ParseFailed | Parsed json

text \<open>
  \<open>finish a\<close> is the instant at which the call of adapter \<open>a\<close> settles: the concurrent
  tasks push their submissions in the order in which they settle.
\<close>

record environment =
  analysisReply :: judge_reply
  invoke :: "adapter \<Rightarrow> invocation"
  finish :: "adapter \<Rightarrow> nat"
  evaluationReply :: judge_reply

text \<open>The calls to remote services a run makes, in the order in which it starts them.\<close>

datatype call = JudgeAnalysis | Generation adapter | JudgeEvaluation

record details =
  submissions :: "submission list"
  totalModels :: nat
  framework :: json
  requirements :: json

record generation =
  bestCode :: string
  bestModel :: string
  score :: rat
  models :: "string list"
  executionDetails :: details

text \<open>
  Step 1 of \<^verbatim>\<open>generate\<close>: the variables \<^verbatim>\<open>framework\<close> and \<^verbatim>\<open>requirements\<close> after the
  \<^verbatim>\<open>try\<close>/\<^verbatim>\<open>catch\<close> around the judge call.
\<close>

definition defaultRequirements :: json where
  "defaultRequirements = JArr [JStr ''basic functionality'']"

text \<open>\<^verbatim>\<open>x || d\<close> for a default \<open>d\<close> that is truthy.\<close>

fun orDefault :: "jsval \<Rightarrow> json \<Rightarrow> json" where
  "orDefault None d = d"
| "orDefault (Some v) d = (if truthy (Some v) then v else d)"

definition analyze :: "judge_reply \<Rightarrow> json \<times> json" where
  "analyze reply =
     (case reply of
        Parsed parsed \<Rightarrow>
          (case getProp (Some parsed) ''framework'' of
             Inl e \<Rightarrow> (JStr ''react'', defaultRequirements)
           | Inr f \<Rightarrow>
               (case getProp (Some parsed) ''requirements'' of
                  Inl e \<Rightarrow> (orDefault f (JStr ''react''), defaultRequirements)
                | Inr r \<Rightarrow> (orDefault f (JStr ''react''), orDefault r defaultRequirements)))
      | _ \<Rightarrow> (JStr ''react'', defaultRequirements))"

text \<open>
  The conversion of a decoded value to a string, as a template literal and
  \<^verbatim>\<open>Array.prototype.join\<close> do it, throws a TypeError for an object with a property
  \<^verbatim>\<open>toString\<close> of its own (no decoded value is callable, and \<^verbatim>\<open>Object.prototype.valueOf\<close>
  returns the object), and for an array with such an element: an array is converted by
  joining its elements. \<open>stringable v\<close> says that the conversion of \<open>v\<close> returns.
\<close>

fun stringable :: "json \<Rightarrow> bool" where
  "stringable (JArr xs) = list_all stringable xs"
| "stringable (JObj kvs) = (map_of kvs ''toString'' = None)"
| "stringable v = True"

text \<open>The same for a value that may be \<^verbatim>\<open>undefined\<close>.\<close>

fun stringableVal :: "jsval \<Rightarrow> bool" where
  "stringableVal None = True"
| "stringableVal (Some v) = stringable v"

text \<open>
  \<^verbatim>\<open>requirements.join(', ')\<close>: only an array has a \<^verbatim>\<open>join\<close> method, so any other value
  throws a TypeError; an array is joined when each element can be converted
  (\<^verbatim>\<open>null\<close> elements count as empty strings).
\<close>

fun joinable :: "json \<Rightarrow> bool" where
  "joinable (JArr xs) = list_all stringable xs"
| "joinable v = False"

text \<open>
  The log line after the \<^verbatim>\<open>try\<close>/\<^verbatim>\<open>catch\<close> of step 1,
  \<^verbatim>\<open>`Framework: ${framework}, Requirements: ${requirements.join(', ')}`\<close>, stands outside
  every \<^verbatim>\<open>try\<close>: \<open>loggable fw reqs\<close> says that it does not throw for these two values.
\<close>

definition loggable :: "json \<Rightarrow> json \<Rightarrow> bool" where
  "loggable fw reqs = (stringable fw \<and> joinable reqs)"

text \<open>Step 2: one call per enabled adapter; a call that throws pushes nothing.\<close>

definition submit :: "environment \<Rightarrow> adapter \<Rightarrow> submission option" where
  "submit env a =
     (case invoke env a of
        Completed content ms \<Rightarrow>
          Some \<lparr> model = modelName a, code = content, reasoning = modelReasoning a,
                 executionTime = ms \<rparr>
      | Threw \<Rightarrow> None)"

definition collect :: "orchestrator \<Rightarrow> environment \<Rightarrow> submission list" where
  "collect orch env = List.map_filter (submit env) (sort_key (finish env) (enabled orch))"

text \<open>
  Step 3, for at least two submissions: the body of the \<^verbatim>\<open>try\<close> and its \<^verbatim>\<open>catch\<close>.
  \<open>s0\<close> is \<^verbatim>\<open>submissions[0]\<close>. The log line of the \<^verbatim>\<open>try\<close> evaluates
  \<^verbatim>\<open>result.winnerScore || result.scores[0]?.score\<close> and converts it to a string; both
  can throw, and the \<^verbatim>\<open>catch\<close> then resets the winner to \<^verbatim>\<open>submissions[0]\<close>.
\<close>

definition evaluate :: "submission \<Rightarrow> submission list \<Rightarrow> judge_reply \<Rightarrow> submission" where
  "evaluate s0 rest reply =
     (case reply of
        Parsed result \<Rightarrow>
          (case orFirstScore result ''winner'' ''model'' of
             Inl e \<Rightarrow> s0
           | Inr winningModel \<Rightarrow>
               (let bestSubmission =
                      (case find (\<lambda>s. Some (JStr (model s)) = winningModel) (s0 # rest) of
                         Some s \<Rightarrow> s
                       | None \<Rightarrow> s0)
                in case orFirstScore result ''winnerScore'' ''score'' of
                     Inl e \<Rightarrow> s0
                   | Inr logged \<Rightarrow> if stringableVal logged then bestSubmission else s0))
      | _ \<Rightarrow> s0)"

definition generate :: "orchestrator \<Rightarrow> environment \<Rightarrow> call list \<times> (error + generation)" where
  "generate orch env =
     (let (framework, requirements) = analyze (analysisReply env) in
      if \<not> loggable framework requirements then ([JudgeAnalysis], Inl TypeError)
      else
        let submissions = collect orch env;
            calls = JudgeAnalysis # map Generation (enabled orch)
        in case submissions of
             [] \<Rightarrow> (calls, Inl NoSubmissions)
           | s0 # rest \<Rightarrow>
               let bestSubmission = (if rest \<noteq> [] then evaluate s0 rest (evaluationReply env) else s0)
               in (calls @ (if rest \<noteq> [] then [JudgeEvaluation] else []),
                   Inr \<lparr> bestCode = code bestSubmission,
                          bestModel = model bestSubmission,
                          score = 17 / 2,
                          models = map model submissions,
                          executionDetails =
                            \<lparr> submissions = submissions,
                               totalModels = length submissions,
                               framework = framework,
                               requirements = requirements \<rparr> \<rparr>))"

subsection \<open>Example runs\<close>


definition orchOpenAIGrok :: orchestrator where
  "orchOpenAIGrok =
     \<lparr> openai = True, anthropic = False, grok = True, llama = False, deepseek = False,
        gemini = False, mistral = False, availableModels = [''openai'', ''grok''] \<rparr>"

text \<open>The submissions of the two adapters.\<close>

definition subOpenAI :: "string \<Rightarrow> int \<Rightarrow> submission" where
  "subOpenAI c ms =
     \<lparr> model = ''OpenAI GPT-4o'', code = c, reasoning = ''Optimized for speed and reliability'',
        executionTime = ms \<rparr>"

definition subGrok :: "string \<Rightarrow> int \<Rightarrow> submission" where
  "subGrok c ms =
     \<lparr> model = ''Grok'', code = c, reasoning = ''Creative problem-solving and reasoning'',
        executionTime = ms \<rparr>"

text \<open>Every generation call throws.\<close>

definition envAllFail :: environment where
  "envAllFail =
     \<lparr> analysisReply = Parsed (JObj [(''framework'', JStr ''vue'')]),
        invoke = (\<lambda>a. Threw),
        finish = (\<lambda>a. 0),
        evaluationReply = InvokeFailed \<rparr>"

text \<open>The call of OpenAI times out; the call of Grok returns; the analysis reply is no JSON.\<close>

definition envGrokOnly :: environment where
  "envGrokOnly =
     \<lparr> analysisReply = ParseFailed,
        invoke = (\<lambda>a. if a = Grok then Completed ''function App() {}'' 1200 else Threw),
        finish = (\<lambda>a. if a = Grok then 1200 else 30000),
        evaluationReply = InvokeFailed \<rparr>"

text \<open>
  Both calls return, OpenAI first. The judge's reply has no \<^verbatim>\<open>winner\<close> field; its first
  \<^verbatim>\<open>scores\<close> entry is Grok's.
\<close>

definition envScoresOnly :: environment where
  "envScoresOnly =
     \<lparr> analysisReply = InvokeFailed,
        invoke = (\<lambda>a. if a = Grok then Completed ''function B() {}'' 900
                      else Completed ''function A() {}'' 700),
        finish = (\<lambda>a. if a = Grok then 900 else 700),
        evaluationReply =
          Parsed (JObj [(''scores'', JArr [JObj [(''model'', JStr ''Grok''), (''score'', JNum 9)],
                                           JObj [(''model'', JStr ''OpenAI GPT-4o''), (''score'', JNum 7)]]),
                        (''winnerScore'', JNum 9)]) \<rparr>"

text \<open>Both calls return, Grok first. The judge names a winner that is no submission.\<close>

definition envUnknownWinner :: environment where
  "envUnknownWinner =
     \<lparr> analysisReply = InvokeFailed,
        invoke = (\<lambda>a. if a = Grok then Completed ''function B() {}'' 500
                      else Completed ''function A() {}'' 700),
        finish = (\<lambda>a. if a = Grok then 500 else 700),
        evaluationReply =
          Parsed (JObj [(''winner'', JStr ''GPT-4''), (''winnerScore'', JNum 9)]) \<rparr>"

text \<open>Both calls return, OpenAI first. The judge names Grok the winner, with score 9.\<close>

definition envGrokWins :: environment where
  "envGrokWins =
     \<lparr> analysisReply = Parsed (JObj [(''framework'', JStr ''react''),
                                     (''requirements'', JArr [JStr ''modern UI''])]),
        invoke = (\<lambda>a. if a = Grok then Completed ''function B() {}'' 900
                      else Completed ''function A() {}'' 700),
        finish = (\<lambda>a. if a = Grok then 900 else 700),
        evaluationReply =
          Parsed (JObj [(''winner'', JStr ''Grok''), (''winnerScore'', JNum 9)]) \<rparr>"

text \<open>The judge's analysis names its requirements in one string, not in an array.\<close>

definition envStringRequirements :: environment where
  "envStringRequirements =
     \<lparr> analysisReply = Parsed (JObj [(''framework'', JStr ''react''),
                                     (''requirements'', JStr ''responsive design, modern UI'')]),
        invoke = (\<lambda>a. Completed ''function A() {}'' 700),
        finish = (\<lambda>a. 700),
        evaluationReply = InvokeFailed \<rparr>"


section \<open>Regular expressions\<close>

text \<open>
  The regular expressions of the deployment service, with the backtracking semantics of
  ECMAScript: alternatives are tried left to right, a greedy quantifier tries one more
  iteration before it tries to go on, a lazy one the other way round, and the first
  success wins. All of them have at most one capturing group.
\<close>

datatype citem =
    C char
  | R char char
  | W
  | S
  | NS

definition codeUnit :: "char \<Rightarrow> nat" where
  "codeUnit c = of_char c"

text \<open>
  White space (\<^verbatim>\<open>\s\<close>, and what \<^verbatim>\<open>trim\<close> removes) among the code units below 256: tab,
  line feed, vertical tab, form feed, carriage return, space, no-break space.
\<close>

definition isSpace :: "char \<Rightarrow> bool" where
  "isSpace c = (codeUnit c \<in> {9, 10, 11, 12, 13, 32, 160})"

text \<open>\<^verbatim>\<open>\w\<close> is \<^verbatim>\<open>[A-Za-z0-9_]\<close>.\<close>

definition isWord :: "char \<Rightarrow> bool" where
  "isWord c =
     (let n = codeUnit c
      in (48 \<le> n \<and> n \<le> 57) \<or> (65 \<le> n \<and> n \<le> 90) \<or> n = 95 \<or> (97 \<le> n \<and> n \<le> 122))"

fun inItem :: "char \<Rightarrow> citem \<Rightarrow> bool" where
  "inItem c (C d) = (c = d)"
| "inItem c (R lo hi) = (codeUnit lo \<le> codeUnit c \<and> codeUnit c \<le> codeUnit hi)"
| "inItem c W = isWord c"
| "inItem c S = isSpace c"
| "inItem c NS = (\<not> isSpace c)"

text \<open>
  The canonical form of a character under the \<^verbatim>\<open>i\<close> flag: a lower-case ASCII letter
  becomes its upper-case letter (the same code unit with bit 5 cleared); no other code
  unit below 256 is mapped to an ASCII character.
\<close>

definition toUpper :: "char \<Rightarrow> char" where
  "toUpper c =
     (if 97 \<le> codeUnit c \<and> codeUnit c \<le> 122
      then (case c of Char b0 b1 b2 b3 b4 b5 b6 b7 \<Rightarrow> Char b0 b1 b2 b3 b4 False b6 b7)
      else c)"

fun startsWithI :: "string \<Rightarrow> string \<Rightarrow> bool" where
  "startsWithI s [] = True"
| "startsWithI [] (p # ps) = False"
| "startsWithI (c # cs) (p # ps) = (toUpper c = toUpper p \<and> startsWithI cs ps)"

text \<open>
  \<open>Lit\<close> is a sequence of literal characters, \<open>LitI\<close> the same under the \<^verbatim>\<open>i\<close> flag,
  \<open>One\<close> a character class (or \<^verbatim>\<open>\s\<close>, \<^verbatim>\<open>\w\<close> alone), \<open>NoneOf\<close> a negated class, \<open>Dot\<close>
  is \<^verbatim>\<open>.\<close> without the \<^verbatim>\<open>s\<close> flag, \<open>WordB\<close> is \<^verbatim>\<open>\b\<close>, \<open>Grp\<close> the capturing group and
  \<open>Look\<close> the lookahead \<^verbatim>\<open>(?=...)\<close>.
\<close>

datatype regex =
    Lit string
  | LitI string
  | One "citem list"
  | NoneOf "citem list"
  | Dot
  | WordB
  | Seq regex regex
  | Alt regex regex
  | Opt regex
  | Star regex
  | StarLazy regex
  | Grp regex
  | Look regex

text \<open>
  The state of a match: the character before the current position (for \<^verbatim>\<open>\b\<close>), the
  text from the current position on, and the capture of the group.
\<close>

record mstate =
  prev :: "char option"
  rest :: string
  cap :: "string option"

type_synonym cont = "mstate \<Rightarrow> mstate option"

fun advance :: "nat \<Rightarrow> mstate \<Rightarrow> mstate" where
  "advance 0 st = st"
| "advance (Suc n) st =
     (case rest st of
        [] \<Rightarrow> st
      | c # cs \<Rightarrow> advance n (st\<lparr>prev := Some c, rest := cs\<rparr>))"

text \<open>
  The quantifier \<^verbatim>\<open>*\<close>: an iteration that consumes nothing is rejected, as in ECMAScript,
  so there are at most as many iterations as characters left; \<open>n\<close> counts them down.
\<close>

primrec starGreedy :: "(cont \<Rightarrow> cont) \<Rightarrow> nat \<Rightarrow> cont \<Rightarrow> cont" where
  "starGreedy step 0 k st = k st"
| "starGreedy step (Suc n) k st =
     (case step (\<lambda>st'. if length (rest st') < length (rest st)
                        then starGreedy step n k st' else None) st of
        Some r \<Rightarrow> Some r
      | None \<Rightarrow> k st)"

primrec starLazy :: "(cont \<Rightarrow> cont) \<Rightarrow> nat \<Rightarrow> cont \<Rightarrow> cont" where
  "starLazy step 0 k st = k st"
| "starLazy step (Suc n) k st =
     (case k st of
        Some r \<Rightarrow> Some r
      | None \<Rightarrow> step (\<lambda>st'. if length (rest st') < length (rest st)
                              then starLazy step n k st' else None) st)"

definition wordAt :: "char option \<Rightarrow> bool" where
  "wordAt c = (case c of None \<Rightarrow> False | Some d \<Rightarrow> isWord d)"

definition nextChar :: "mstate \<Rightarrow> char option" where
  "nextChar st = (case rest st of [] \<Rightarrow> None | c # cs \<Rightarrow> Some c)"

text \<open>\<open>matcher r k st\<close>: match \<open>r\<close> at \<open>st\<close>, then go on with \<open>k\<close>.\<close>

primrec matcher :: "regex \<Rightarrow> cont \<Rightarrow> cont" where
  "matcher (Lit s) k st =
     (if startsWith (rest st) s then k (advance (length s) st) else None)"
| "matcher (LitI s) k st =
     (if startsWithI (rest st) s then k (advance (length s) st) else None)"
| "matcher (One cls) k st =
     (case rest st of
        [] \<Rightarrow> None
      | c # cs \<Rightarrow> if list_ex (inItem c) cls then k (st\<lparr>prev := Some c, rest := cs\<rparr>) else None)"
| "matcher (NoneOf cls) k st =
     (case rest st of
        [] \<Rightarrow> None
      | c # cs \<Rightarrow> if list_ex (inItem c) cls then None else k (st\<lparr>prev := Some c, rest := cs\<rparr>))"
| "matcher Dot k st =
     (case rest st of
        [] \<Rightarrow> None
      | c # cs \<Rightarrow> if codeUnit c = 10 \<or> codeUnit c = 13 then None
                  else k (st\<lparr>prev := Some c, rest := cs\<rparr>))"
| "matcher WordB k st =
     (if wordAt (prev st) \<noteq> wordAt (nextChar st) then k st else None)"
| "matcher (Seq a b) k st = matcher a (matcher b k) st"
| "matcher (Alt a b) k st =
     (case matcher a k st of Some r \<Rightarrow> Some r | None \<Rightarrow> matcher b k st)"
| "matcher (Opt a) k st =
     (case matcher a k st of Some r \<Rightarrow> Some r | None \<Rightarrow> k st)"
| "matcher (Star a) k st = starGreedy (matcher a) (length (rest st)) k st"
| "matcher (StarLazy a) k st = starLazy (matcher a) (length (rest st)) k st"
| "matcher (Grp a) k st =
     matcher a
       (\<lambda>st'. k (st'\<lparr>cap := Some (take (length (rest st) - length (rest st')) (rest st))\<rparr>)) st"
| "matcher (Look a) k st =
     (case matcher a Some st of Some r \<Rightarrow> k st | None \<Rightarrow> None)"

text \<open>\<^verbatim>\<open>r+\<close>, and a sequence of several parts.\<close>

definition Plus :: "regex \<Rightarrow> regex" where
  "Plus r = Seq r (Star r)"

fun seqs :: "regex list \<Rightarrow> regex" where
  "seqs [] = Lit []"
| "seqs [r] = r"
| "seqs (r # rs) = Seq r (seqs rs)"

text \<open>
  A match that starts at the current position: the matched text and the capture.
  \<open>p\<close> is the character before the position.
\<close>

definition matchAt :: "regex \<Rightarrow> char option \<Rightarrow> string \<Rightarrow> (string \<times> string option) option" where
  "matchAt r p s =
     (case matcher r Some \<lparr>prev = p, rest = s, cap = None\<rparr> of
        None \<Rightarrow> None
      | Some st \<Rightarrow> Some (take (length s - length (rest st)) s, cap st))"

text \<open>
  \<^verbatim>\<open>s.match(r)\<close> for a regular expression without the \<^verbatim>\<open>g\<close> flag: the leftmost match,
  with the index at which it starts. \<open>i\<close> is the index of the current position.
\<close>

fun searchFrom :: "regex \<Rightarrow> nat \<Rightarrow> char option \<Rightarrow> string \<Rightarrow> (nat \<times> string \<times> string option) option" where
  "searchFrom r i p [] =
     (case matchAt r p [] of None \<Rightarrow> None | Some (mt, c) \<Rightarrow> Some (i, mt, c))"
| "searchFrom r i p (x # xs) =
     (case matchAt r p (x # xs) of
        None \<Rightarrow> searchFrom r (Suc i) (Some x) xs
      | Some (mt, c) \<Rightarrow> Some (i, mt, c))"

definition search :: "regex \<Rightarrow> string \<Rightarrow> (nat \<times> string \<times> string option) option" where
  "search r s = searchFrom r 0 None s"

text \<open>
  \<^verbatim>\<open>[...s.matchAll(r)]\<close> for a regular expression with the \<^verbatim>\<open>g\<close> flag: after a match the
  search goes on where the match ended (one character further after an empty match).
\<close>

fun matchAllFrom :: "regex \<Rightarrow> nat \<Rightarrow> char option \<Rightarrow> string \<Rightarrow> (nat \<times> string \<times> string option) list" where
  "matchAllFrom r i p [] =
     (case matchAt r p [] of None \<Rightarrow> [] | Some (mt, c) \<Rightarrow> [(i, mt, c)])"
| "matchAllFrom r i p (x # xs) =
     (case matchAt r p (x # xs) of
        None \<Rightarrow> matchAllFrom r (Suc i) (Some x) xs
      | Some (mt, c) \<Rightarrow>
          if mt = [] then (i, mt, c) # matchAllFrom r (Suc i) (Some x) xs
          else (i, mt, c) #
               matchAllFrom r (i + length mt) (Some (last mt)) (drop (length mt) (x # xs)))"

definition matchAll :: "regex \<Rightarrow> string \<Rightarrow> (nat \<times> string \<times> string option) list" where
  "matchAll r s = matchAllFrom r 0 None s"

text \<open>
  \<^verbatim>\<open>s.replace(r, ...)\<close> for a regular expression with the \<^verbatim>\<open>g\<close> flag; \<open>f\<close> builds the
  replacement from the capture.
\<close>

fun replaceAllFrom :: "regex \<Rightarrow> (string option \<Rightarrow> string) \<Rightarrow> char option \<Rightarrow> string \<Rightarrow> string" where
  "replaceAllFrom r f p [] =
     (case matchAt r p [] of None \<Rightarrow> [] | Some (mt, c) \<Rightarrow> f c)"
| "replaceAllFrom r f p (x # xs) =
     (case matchAt r p (x # xs) of
        None \<Rightarrow> x # replaceAllFrom r f (Some x) xs
      | Some (mt, c) \<Rightarrow>
          if mt = [] then f c @ x # replaceAllFrom r f (Some x) xs
          else f c @ replaceAllFrom r f (Some (last mt)) (drop (length mt) (x # xs)))"

definition replaceAll :: "regex \<Rightarrow> string \<Rightarrow> string \<Rightarrow> string" where
  "replaceAll r rep s = replaceAllFrom r (\<lambda>c. rep) None s"

text \<open>The text of the capture, empty when the group took no part in the match.\<close>

definition captured :: "string option \<Rightarrow> string" where
  "captured c = (case c of None \<Rightarrow> [] | Some t \<Rightarrow> t)"


section \<open>PreviewDeployment\<close>

subsection \<open>String helpers\<close>

text \<open>\<^verbatim>\<open>s.endsWith(suffix)\<close>\<close>

definition endsWith :: "string \<Rightarrow> string \<Rightarrow> bool" where
  "endsWith s suffix = startsWith (rev s) (rev suffix)"

text \<open>\<^verbatim>\<open>s.trim()\<close>\<close>

definition trim :: "string \<Rightarrow> string" where
  "trim s = rev (dropWhile isSpace (rev (dropWhile isSpace s)))"

text \<open>The decimal digits of a number, as a template literal prints an array index.\<close>

fun decimal :: "nat \<Rightarrow> string" where
  "decimal n =
     (if n < 10 then [''0123456789'' ! n]
      else decimal (n div 10) @ [''0123456789'' ! (n mod 10)])"

text \<open>
  The file set is the object \<^verbatim>\<open>files\<close>: its keys in the order in which they were
  first assigned, each with its content.
\<close>

type_synonym files = "(string \<times> string) list"

text \<open>\<^verbatim>\<open>Object.keys(files)\<close>\<close>

definition keys :: "files \<Rightarrow> string list" where
  "keys files = map fst files"

text \<open>\<^verbatim>\<open>!files[k]\<close>: the key is missing or its content is the empty string.\<close>

definition missing :: "files \<Rightarrow> string \<Rightarrow> bool" where
  "missing files k = (case map_of files k of None \<Rightarrow> True | Some v \<Rightarrow> v = [])"

text \<open>\<^verbatim>\<open>files[k]\<close>, or the empty string when the key is missing.\<close>

definition contentOf :: "files \<Rightarrow> string \<Rightarrow> string" where
  "contentOf files k = (case map_of files k of None \<Rightarrow> [] | Some v \<Rightarrow> v)"

subsection \<open>The generated documents\<close>

text \<open>
  \<^verbatim>\<open>createIndexHtml\<close>: the template literal is the text before the title, the title
  and the text after it.
\<close>

definition indexHead :: string where
  \<open>indexHead =
     ''<!DOCTYPE html>\<newline>'' @
     ''<html lang="en">\<newline>'' @
     ''<head>\<newline>'' @
     ''    <meta charset="UTF-8">\<newline>'' @
     ''    <meta name="viewport" content="width=device-width, initial-scale=1.0">\<newline>'' @
     ''    <title>''\<close>

definition indexTail :: string where
  \<open>indexTail =
     ''</title>\<newline>'' @
     ''    <script src="https://unpkg.com/react@18/umd/react.development.js"></script>\<newline>'' @
     ''    <script src="https://unpkg.com/react-dom@18/umd/react-dom.development.js"></script>\<newline>'' @
     ''    <script src="https://unpkg.com/@babel/standalone/babel.min.js"></script>\<newline>'' @
     ''    <script src="https://cdn.tailwindcss.com"></script>\<newline>'' @
     ''    <link rel="stylesheet" href="./styles.css">\<newline>'' @
     ''</head>\<newline>'' @
     ''<body>\<newline>'' @
     ''    <div id="root"></div>\<newline>'' @
     ''    <script type="text/babel" src="./App.tsx" data-type="module"></script>\<newline>'' @
     ''    <script type="text/babel">\<newline>'' @
     ''      // Wait for App component to be loaded, then render it\<newline>'' @
     ''      const renderApp = () => {\<newline>'' @
     ''        // Get the default export from the loaded App module\<newline>'' @
     ''        const App = window.App || (() => React.createElement('div', null, 'Loading...'));\<newline>'' @
     ''        const root = ReactDOM.createRoot(document.getElementById('root'));\<newline>'' @
     ''        root.render(React.createElement(App));\<newline>'' @
     ''      };\<newline>'' @
     ''\<newline>'' @
     ''      // Give the App.tsx time to load and execute\<newline>'' @
     ''      setTimeout(renderApp, 100);\<newline>'' @
     ''    </script>\<newline>'' @
     ''</body>\<newline>'' @
     ''</html>''\<close>

definition createIndexHtml :: "string \<Rightarrow> string" where
  "createIndexHtml title = indexHead @ title @ indexTail"

text \<open>
  \<^verbatim>\<open>wrapInHtml\<close>: a content that already has an \<^verbatim>\<open><html\<close> tag is returned as it is;
  any other content is put between the two parts of the template literal.
\<close>

definition wrapHead :: string where
  \<open>wrapHead =
     ''<!DOCTYPE html>\<newline>'' @
     ''<html lang="en">\<newline>'' @
     ''<head>\<newline>'' @
     ''    <meta charset="UTF-8">\<newline>'' @
     ''    <meta name="viewport" content="width=device-width, initial-scale=1.0">\<newline>'' @
     ''    <title>Generated App</title>\<newline>'' @
     ''    <script src="https://cdn.tailwindcss.com"></script>\<newline>'' @
     ''    <style>\<newline>'' @
     ''        body { margin: 0; padding: 20px; font-family: system-ui, -apple-system, sans-serif; }\<newline>'' @
     ''    </style>\<newline>'' @
     ''</head>\<newline>'' @
     ''<body>\<newline>'' @
     ''    ''\<close>

definition wrapTail :: string where
  \<open>wrapTail =
     ''\<newline>'' @
     ''</body>\<newline>'' @
     ''</html>''\<close>

definition wrapInHtml :: "string \<Rightarrow> string" where
  "wrapInHtml content =
     (if str_includes content ''<html'' then content else wrapHead @ content @ wrapTail)"

text \<open>The placeholder component \<^verbatim>\<open>transformForBrowser\<close> returns when nothing usable is left.\<close>

definition placeholder :: string where
  \<open>placeholder =
     ''function App() {\<newline>'' @
     ''  return React.createElement('div', { className: 'p-8' },\<newline>'' @
     ''    React.createElement('h1', { className: 'text-2xl font-bold mb-4' }, 'Todo App'),\<newline>'' @
     ''    React.createElement('p', null, 'Component could not be loaded. Please try generating again.')\<newline>'' @
     ''  );\<newline>'' @
     ''}\<newline>'' @
     ''window.App = App;''\<close>

subsection \<open>The regular expressions of the service\<close>

text \<open>\<^verbatim>\<open>\s+\<close>, \<^verbatim>\<open>\s*\<close>, \<^verbatim>\<open>['"]\<close> and \<^verbatim>\<open>\s*;?\<close>, which most of the expressions share.\<close>

definition ws1 :: regex where
  "ws1 = Plus (One [S])"

definition ws0 :: regex where
  "ws0 = Star (One [S])"

definition quote :: regex where
  \<open>quote = One [C (CHR 0x27), C (CHR ''"'')]\<close>

definition semi :: regex where
  "semi = Seq ws0 (Opt (Lit '';''))"

text \<open>\<^verbatim>\<open>/```(?:[\w]+)?\n([\s\S]*?)```/g\<close>\<close>

definition codeBlockRegex :: regex where
  "codeBlockRegex =
     seqs [Lit ''```'', Opt (Plus (One [W])), Lit ''\<newline>'', Grp (StarLazy (One [S, NS])),
           Lit ''```'']"

text \<open>\<^verbatim>\<open>/function\s+(TodoApp|App)\s*\(/\<close>\<close>

definition mainComponentRegex :: regex where
  "mainComponentRegex =
     seqs [Lit ''function'', ws1, Grp (Alt (Lit ''TodoApp'') (Lit ''App'')), ws0, Lit ''('']"

text \<open>
  The patterns of \<^verbatim>\<open>extractFileName\<close>:
  \<^verbatim>\<open>/\/\/\s*([^\/\n]+\.[a-zA-Z]+)/\<close>, \<^verbatim>\<open>/\/\*\s*([^\/\n]+\.[a-zA-Z]+)/\<close>,
  \<^verbatim>\<open>/<!--\s*([^-\n]+\.[a-zA-Z]+)/\<close>.
\<close>

definition letters :: regex where
  "letters = Plus (One [R (CHR ''a'') (CHR ''z''), R (CHR ''A'') (CHR ''Z'')])"

definition patterns :: "regex list" where
  "patterns =
     [seqs [Lit ''//'', ws0,
            Grp (seqs [Plus (NoneOf [C (CHR ''/''), C (CHR ''\<newline>'')]), Lit ''.'', letters])],
      seqs [Lit ''/*'', ws0,
            Grp (seqs [Plus (NoneOf [C (CHR ''/''), C (CHR ''\<newline>'')]), Lit ''.'', letters])],
      seqs [Lit ''<!--'', ws0,
            Grp (seqs [Plus (NoneOf [C (CHR ''-''), C (CHR ''\<newline>'')]), Lit ''.'', letters])]]"

text \<open>
  The import statements \<^verbatim>\<open>transformForBrowser\<close> removes, all with the flags \<^verbatim>\<open>gi\<close>, in
  the order in which it applies them:
  \<^verbatim>\<open>/import\s+React[,\s]*(?:\{[^}]*\})?\s+from\s+['"]react['"]\s*;?/\<close>,
  \<^verbatim>\<open>/import\s+ReactDOM\s+from\s+['"]react-dom['"]\s*;?/\<close>,
  \<^verbatim>\<open>/import\s+\{[^}]*\}\s+from\s+['"]react['"]\s*;?/\<close>,
  \<^verbatim>\<open>/import\s+.*\s+from\s+['"]react-dom\/client['"]\s*;?/\<close>,
  \<^verbatim>\<open>/import\s+['"]\.\/[^'"]*\.css['"]\s*;?/\<close>,
  \<^verbatim>\<open>/import\s+['"][^'"]*\.css['"]\s*;?/\<close>,
  \<^verbatim>\<open>/import\s+(?:type\s+)?\{[^}]*\}\s+from\s+['"][^'"]*types[^'"]*['"]\s*;?/\<close>,
  \<^verbatim>\<open>/import\s+type\s+\{[^}]*\}\s+from\s+['"][^'"]*['"]\s*;?/\<close>,
  \<^verbatim>\<open>/import\s+.*\s+from\s+['"]\.\.?\/[^'"]*['"]\s*;?/\<close>.
\<close>

definition braces :: regex where
  "braces = seqs [Lit ''{'', Star (NoneOf [C (CHR ''}'')]), Lit ''}'']"

definition unquoted :: regex where
  \<open>unquoted = Star (NoneOf [C (CHR 0x27), C (CHR ''"'')])\<close>

definition importRegexes :: "regex list" where
  "importRegexes =
     [seqs [LitI ''import'', ws1, LitI ''React'', Star (One [C (CHR '',''), S]), Opt braces,
            ws1, LitI ''from'', ws1, quote, LitI ''react'', quote, semi],
      seqs [LitI ''import'', ws1, LitI ''ReactDOM'', ws1, LitI ''from'', ws1,
            quote, LitI ''react-dom'', quote, semi],
      seqs [LitI ''import'', ws1, braces, ws1, LitI ''from'', ws1, quote, LitI ''react'', quote,
            semi],
      seqs [LitI ''import'', ws1, Star Dot, ws1, LitI ''from'', ws1,
            quote, LitI ''react-dom/client'', quote, semi],
      seqs [LitI ''import'', ws1, quote, Lit ''./'', unquoted, LitI ''.css'', quote, semi],
      seqs [LitI ''import'', ws1, quote, unquoted, LitI ''.css'', quote, semi],
      seqs [LitI ''import'', ws1, Opt (Seq (LitI ''type'') ws1), braces, ws1, LitI ''from'', ws1,
            quote, unquoted, LitI ''types'', unquoted, quote, semi],
      seqs [LitI ''import'', ws1, LitI ''type'', ws1, braces, ws1, LitI ''from'', ws1,
            quote, unquoted, quote, semi],
      seqs [LitI ''import'', ws1, Star Dot, ws1, LitI ''from'', ws1,
            quote, Lit ''.'', Opt (Lit ''.''), Lit ''/'', unquoted, quote, semi]]"

text \<open>
  The mount calls it removes, with the flag \<^verbatim>\<open>g\<close>:
  \<^verbatim>\<open>/ReactDOM\.render\s*\([^)]*\);?/\<close>,
  \<^verbatim>\<open>/const\s+root\s*=\s*ReactDOM\.createRoot[^;]*;?/\<close>,
  \<^verbatim>\<open>/root\.render\s*\([^)]*\);?/\<close>,
  \<^verbatim>\<open>/document\.getElementById\s*\(\s*['"]root['"]\s*\)/\<close>.
\<close>

definition mountRegexes :: "regex list" where
  "mountRegexes =
     [seqs [Lit ''ReactDOM.render'', ws0, Lit ''('', Star (NoneOf [C (CHR '')'')]), Lit '')'',
            Opt (Lit '';'')],
      seqs [Lit ''const'', ws1, Lit ''root'', ws0, Lit ''='', ws0, Lit ''ReactDOM.createRoot'',
            Star (NoneOf [C (CHR '';'')]), Opt (Lit '';'')],
      seqs [Lit ''root.render'', ws0, Lit ''('', Star (NoneOf [C (CHR '')'')]), Lit '')'',
            Opt (Lit '';'')],
      seqs [Lit ''document.getElementById'', ws0, Lit ''('', ws0, quote, Lit ''root'', quote,
            ws0, Lit '')'']]"

text \<open>\<^verbatim>\<open>/\buseState\b/g\<close> and the like.\<close>

definition hooks :: "string list" where
  "hooks = [''useState'', ''useEffect'', ''useRef'', ''useCallback'', ''useMemo'',
            ''useContext'', ''useReducer'']"

definition hookRegex :: "string \<Rightarrow> regex" where
  "hookRegex h = seqs [WordB, Lit h, WordB]"

text \<open>
  The type annotations it removes:
  \<^verbatim>\<open>/<[A-Z][^>]*>/g\<close>, \<^verbatim>\<open>/:\s*[A-Z][a-zA-Z0-9\[\]]+(?=\s*[=,)\{])/g\<close>,
  \<^verbatim>\<open>/:\s*React\.FC\s*/g\<close>, \<^verbatim>\<open>/interface\s+\w+\s*\{[^}]*\}/gs\<close>,
  \<^verbatim>\<open>/type\s+\w+\s*=\s*\{[^}]*\}/gs\<close>.
\<close>

definition genericRegex :: regex where
  "genericRegex =
     seqs [Lit ''<'', One [R (CHR ''A'') (CHR ''Z'')], Star (NoneOf [C (CHR ''>'')]), Lit ''>'']"

definition annotationRegex :: regex where
  "annotationRegex =
     seqs [Lit '':'', ws0, One [R (CHR ''A'') (CHR ''Z'')],
           Plus (One [R (CHR ''a'') (CHR ''z''), R (CHR ''A'') (CHR ''Z''),
                      R (CHR ''0'') (CHR ''9''), C (CHR ''[''), C (CHR '']'')]),
           Look (Seq ws0 (One [C (CHR ''=''), C (CHR '',''), C (CHR '')''), C (CHR ''{'')]))]"

definition reactFCRegex :: regex where
  "reactFCRegex = seqs [Lit '':'', ws0, Lit ''React.FC'', ws0]"

definition interfaceRegex :: regex where
  "interfaceRegex = seqs [Lit ''interface'', ws1, Plus (One [W]), ws0, braces]"

definition typeRegex :: regex where
  "typeRegex = seqs [Lit ''type'', ws1, Plus (One [W]), ws0, Lit ''='', ws0, braces]"

text \<open>\<^verbatim>\<open>/\n{3,}/g\<close>\<close>

definition blankLinesRegex :: regex where
  "blankLinesRegex = Seq (Lit ''\<newline>\<newline>\<newline>'') (Star (Lit ''\<newline>''))"

text \<open>
  \<^verbatim>\<open>/export\s+default\s+(\w+)\s*;?/g\<close>, \<^verbatim>\<open>/export\s+default\s+function\s+(\w+)/g\<close>,
  \<^verbatim>\<open>/function\s+\w+\s*\(/\<close> and \<^verbatim>\<open>/function\s+(\w+)\s*\(/\<close>.
\<close>

definition exportDefaultRegex :: regex where
  "exportDefaultRegex =
     seqs [Lit ''export'', ws1, Lit ''default'', ws1, Grp (Plus (One [W])), ws0, Opt (Lit '';'')]"

definition exportDefaultFunctionRegex :: regex where
  "exportDefaultFunctionRegex =
     seqs [Lit ''export'', ws1, Lit ''default'', ws1, Lit ''function'', ws1, Grp (Plus (One [W]))]"

definition functionRegex :: regex where
  "functionRegex = seqs [Lit ''function'', ws1, Plus (One [W]), ws0, Lit ''('']"

definition functionNameRegex :: regex where
  "functionNameRegex = seqs [Lit ''function'', ws1, Grp (Plus (One [W])), ws0, Lit ''('']"

subsection \<open>extractFileName\<close>

text \<open>
  In the functions of the service \<open>src\<close> is the parameter \<^verbatim>\<open>code\<close>: the text the
  winning model returned.
\<close>

text \<open>The first pattern that matches the text before the block gives the file name.\<close>

fun firstPattern :: "regex list \<Rightarrow> string \<Rightarrow> string option" where
  "firstPattern [] comment = None"
| "firstPattern (pattern # ps) comment =
     (case search pattern comment of
        Some (i, mt, c) \<Rightarrow> Some (trim (captured c))
      | None \<Rightarrow> firstPattern ps comment)"

definition extractFileName :: "string \<Rightarrow> string \<Rightarrow> string" where
  "extractFileName comment src =
     (case firstPattern patterns comment of
        Some name \<Rightarrow> name
      | None \<Rightarrow>
          if str_includes src ''<!DOCTYPE html>'' then ''index.html''
          else if str_includes src ''import React'' then ''App.tsx''
          else if str_includes src ''export default function'' then ''App.tsx''
          else if str_includes src ''@import'' \<or> str_includes src ''body {'' then ''styles.css''
          else [])"

subsection \<open>transformForBrowser\<close>

text \<open>\<^verbatim>\<open>window.App = name;\<close> on a line of its own, appended to a module.\<close>

definition windowApp :: "string \<Rightarrow> string" where
  "windowApp name = ''\<newline>window.App = '' @ name @ '';''"

text \<open>The part of \<^verbatim>\<open>transformForBrowser\<close> up to the clean-up of empty lines.\<close>

definition stripped :: "string \<Rightarrow> string" where
  "stripped src =
     (let t1 = foldl (\<lambda>t r. replaceAll r [] t) src importRegexes;
          t2 = (if str_includes t1 ''ReactDOM.render'' \<or> str_includes t1 ''createRoot''
                then foldl (\<lambda>t r. replaceAll r [] t) t1 mountRegexes
                else t1);
          t3 = foldl (\<lambda>t h. replaceAll (hookRegex h) (''React.'' @ h) t) t2 hooks;
          t4 = replaceAll genericRegex [] t3;
          t5 = replaceAll annotationRegex [] t4;
          t6 = replaceAll reactFCRegex '' '' t5;
          t7 = replaceAll interfaceRegex [] t6;
          t8 = replaceAll typeRegex [] t7
      in trim (replaceAll blankLinesRegex ''\<newline>\<newline>'' t8))"

text \<open>The part after it: the placeholder, or the module with its global binding.\<close>

definition exposed :: "string \<Rightarrow> string" where
  "exposed transformed =
     (if length transformed < 20 \<or>
         (\<not> str_includes transformed ''function'' \<and> \<not> str_includes transformed ''=>'')
      then placeholder
      else if str_includes transformed ''export default'' then
        (let t1 = replaceAllFrom exportDefaultRegex
                    (\<lambda>c. ''window.App = '' @ captured c @ '';'') None transformed;
             t2 = replaceAllFrom exportDefaultFunctionRegex
                    (\<lambda>c. ''function '' @ captured c) None t1
         in case search functionRegex t2 of
              None \<Rightarrow> t2
            | Some m1 \<Rightarrow>
                (case search functionNameRegex t2 of
                   Some (i, mt, c) \<Rightarrow>
                     if \<not> str_includes t2 ''window.App'' then t2 @ windowApp (captured c) else t2
                 | None \<Rightarrow> t2))
      else
        (case search functionNameRegex transformed of
           Some (i, mt, c) \<Rightarrow>
             if \<not> str_includes transformed ''window.App''
             then transformed @ windowApp (captured c) else transformed
         | None \<Rightarrow> transformed))"

definition transformForBrowser :: "string \<Rightarrow> string" where
  "transformForBrowser src = exposed (stripped src)"

subsection \<open>processCode\<close>

text \<open>
  The file name of a fenced block, \<open>None\<close> when the block cannot be classified:
  \<^verbatim>\<open>extractFileName\<close> first, then the content checks of \<^verbatim>\<open>processCode\<close>.
\<close>

definition blockFileName :: "nat \<Rightarrow> string \<Rightarrow> string \<Rightarrow> string option" where
  \<open>blockFileName index beforeBlock codeContent =
     (let fileName = extractFileName beforeBlock codeContent in
      if fileName \<noteq> [] then Some fileName
      else if startsWith codeContent ''{'' \<and> str_includes codeContent ''"name"'' \<and>
              str_includes codeContent ''"version"'' then Some ''package.json''
      else if str_includes codeContent ''<!DOCTYPE html>'' \<or> str_includes codeContent ''<html''
      then Some ''index.html''
      else if str_includes codeContent ''import React'' \<or>
              str_includes codeContent (''from 'react'' @ [CHR 0x27]) then
        (if str_includes codeContent ''ReactDOM.render'' \<or> str_includes codeContent ''createRoot''
         then Some ''src/index.tsx''
         else Some (if index = 0 then ''src/App.tsx''
                    else ''src/Component'' @ decimal index @ ''.tsx''))
      else if str_includes codeContent ''{'' \<and>
              (str_includes codeContent '':'' \<and> str_includes codeContent '';'') \<and>
              \<not> str_includes codeContent ''function'' then Some ''styles.css''
      else if str_includes codeContent ''export'' \<or> str_includes codeContent ''function'' \<or>
              str_includes codeContent ''const'' then Some (''src/code'' @ decimal index @ ''.tsx'')
      else None)\<close>

text \<open>
  What the body of the \<^verbatim>\<open>forEach\<close> does with one match:
  \<open>Skip\<close> returns without touching the file set, \<open>Module\<close> appends the transformed
  content to \<^verbatim>\<open>App.tsx\<close>, \<open>Plain\<close> stores the content under its file name.
\<close>

datatype block = Skip | Module string | Plain string string

definition classify :: "string \<Rightarrow> nat \<Rightarrow> nat \<times> string \<times> string option \<Rightarrow> block" where
  "classify src index match =
     (case match of (pos, mt, c) \<Rightarrow>
        let codeContent = trim (captured c);
            beforeBlock = take pos src
        in if codeContent = [] then Skip
           else case blockFileName index beforeBlock codeContent of
                  None \<Rightarrow> Skip
                | Some fileName \<Rightarrow>
                    if endsWith fileName ''.tsx'' \<or> endsWith fileName ''.jsx'' then
                      (if str_includes codeContent ''ReactDOM.render'' \<or>
                          str_includes codeContent ''createRoot''
                       then Skip else Module codeContent)
                    else Plain fileName codeContent)"

fun store :: "files \<Rightarrow> block \<Rightarrow> files" where
  "store files Skip = files"
| "store files (Module codeContent) =
     (let transformedContent = transformForBrowser codeContent;
          files1 = (if missing files ''App.tsx'' then AList.update ''App.tsx'' [] files else files)
      in AList.update ''App.tsx''
           (contentOf files1 ''App.tsx'' @ transformedContent @ ''\<newline>\<newline>'') files1)"
| "store files (Plain fileName codeContent) = AList.update fileName codeContent files"

text \<open>The matches with their index in the array of matches.\<close>

definition blocks :: "string \<Rightarrow> block list" where
  "blocks src =
     (let matches = matchAll codeBlockRegex src
      in map (\<lambda>(index, match). classify src index match) (zip [0..<length matches] matches))"

text \<open>After the loop: expose the main component of the combined \<^verbatim>\<open>App.tsx\<close>.\<close>

definition exposeMain :: "files \<Rightarrow> files" where
  "exposeMain files =
     (if missing files ''App.tsx'' then files
      else case search mainComponentRegex (contentOf files ''App.tsx'') of
             None \<Rightarrow> files
           | Some (i, mt, c) \<Rightarrow>
               if \<not> str_includes (contentOf files ''App.tsx'') ''window.App''
               then AList.update ''App.tsx''
                      (contentOf files ''App.tsx'' @ windowApp (captured c) @ ''\<newline>'') files
               else files)"

text \<open>Then make sure that React files come with an entry document that loads React.\<close>

definition ensureHtml :: "files \<Rightarrow> files" where
  "ensureHtml files =
     (let hasReactFiles = list_ex (\<lambda>f. endsWith f ''.tsx'' \<or> endsWith f ''.jsx'') (keys files);
          hasHtmlFile = list_ex (\<lambda>f. endsWith f ''.html'') (keys files)
      in if hasReactFiles then
           (let currentHtml = contentOf files ''index.html'';
                hasReactScripts = (str_includes currentHtml ''react'' \<and>
                                   str_includes currentHtml ''babel'')
            in if \<not> hasHtmlFile \<or> \<not> hasReactScripts
               then AList.update ''index.html'' (createIndexHtml ''Generated App'') files
               else files)
         else files)"

definition processCode :: "string \<Rightarrow> files" where
  "processCode src =
     (if str_includes src ''```'' then
        (if matchAll codeBlockRegex src \<noteq> [] then
           ensureHtml (exposeMain (foldl store [] (blocks src)))
         else [(''index.html'',
                wrapInHtml ''<!-- No valid code blocks found in the response -->'')])
      else
        (let trimmedCode = trim src in
         if str_includes trimmedCode ''import React'' \<or>
            str_includes trimmedCode ''export default function''
         then [(''src/App.tsx'', trimmedCode), (''index.html'', createIndexHtml ''React App'')]
         else if str_includes trimmedCode ''<!DOCTYPE html>'' \<or> str_includes trimmedCode ''<html''
         then [(''index.html'', trimmedCode)]
         else [(''index.html'', wrapInHtml trimmedCode)]))"


subsection \<open>The application-module blocks of a text\<close>

text \<open>
  The contents of the blocks that \<^verbatim>\<open>processCode\<close> transforms and appends to
  \<^verbatim>\<open>App.tsx\<close>, in detection order, and the text they add to it.
\<close>

fun modules :: "block list \<Rightarrow> string list" where
  "modules [] = []"
| "modules (Module c # bs) = c # modules bs"
| "modules (b # bs) = modules bs"

definition moduleBlocks :: "string \<Rightarrow> string list" where
  "moduleBlocks src = modules (blocks src)"

definition combined :: "string list \<Rightarrow> string" where
  "combined cs = concat (map (\<lambda>c. transformForBrowser c @ ''\<newline>\<newline>'') cs)"

text \<open>A file name \<^verbatim>\<open>processCode\<close> takes for a React file.\<close>

definition reactFile :: "string \<Rightarrow> bool" where
  "reactFile f = (endsWith f ''.tsx'' \<or> endsWith f ''.jsx'')"


subsection \<open>The file system\<close>

text \<open>
  A path as \<^verbatim>\<open>path.join\<close> of Node's POSIX \<^verbatim>\<open>path\<close> module returns it: whether it is
  absolute, and its segments. The empty list of segments is \<^verbatim>\<open>/\<close>, or \<^verbatim>\<open>.\<close> for a
  relative path. Paths are compared as \<^verbatim>\<open>path.join\<close> returns them: links and the
  working directory of the process are not modelled.
\<close>

type_synonym path = "bool \<times> string list"

text \<open>\<^verbatim>\<open>s.split('/')\<close>: \<open>acc\<close> is the segment read so far.\<close>

fun splitSlash :: "string \<Rightarrow> string \<Rightarrow> string list" where
  "splitSlash acc [] = [acc]"
| "splitSlash acc (c # cs) =
     (if c = CHR ''/'' then acc # splitSlash [] cs else splitSlash (acc @ [c]) cs)"

text \<open>
  \<^verbatim>\<open>normalizeString\<close>: an empty segment and \<^verbatim>\<open>.\<close> are dropped; \<^verbatim>\<open>..\<close> removes the segment
  before it, and where there is none (or it is \<^verbatim>\<open>..\<close> itself) stays when the path may
  rise above its start.
\<close>

fun normalizeString :: "bool \<Rightarrow> string list \<Rightarrow> string list \<Rightarrow> string list" where
  "normalizeString allowAboveRoot res [] = res"
| "normalizeString allowAboveRoot res (s # ss) =
     (if s = [] \<or> s = ''.'' then normalizeString allowAboveRoot res ss
      else if s = ''..'' then
        (if res \<noteq> [] \<and> last res \<noteq> ''..''
         then normalizeString allowAboveRoot (butlast res) ss
         else if allowAboveRoot then normalizeString allowAboveRoot (res @ [''..'']) ss
         else normalizeString allowAboveRoot res ss)
      else normalizeString allowAboveRoot (res @ [s]) ss)"

text \<open>\<^verbatim>\<open>path.join(a, b)\<close> of two strings: empty arguments are left out.\<close>

definition pathJoin :: "string \<Rightarrow> string \<Rightarrow> path" where
  "pathJoin a b =
     (let joined = (if a = [] then b else if b = [] then a else a @ ''/'' @ b);
          isAbsolute = startsWith joined ''/''
      in (isAbsolute, normalizeString (\<not> isAbsolute) [] (splitSlash [] joined)))"

text \<open>
  \<^verbatim>\<open>path.join(p, s)\<close> for a path \<open>p\<close> that \<^verbatim>\<open>path.join\<close> returned: the segments of
  \<open>s\<close> are resolved after those of \<open>p\<close>.
\<close>

definition joinPath :: "path \<Rightarrow> string \<Rightarrow> path" where
  "joinPath p s = (fst p, normalizeString (\<not> fst p) (snd p) (splitSlash [] s))"

text \<open>\<^verbatim>\<open>path.dirname(p)\<close>\<close>

definition dirname :: "path \<Rightarrow> path" where
  "dirname p = (fst p, butlast (snd p))"

text \<open>The path and all the directories above it, the topmost first.\<close>

definition ancestors :: "path \<Rightarrow> path list" where
  "ancestors p = map (\<lambda>n. (fst p, take n (snd p))) [0..<Suc (length (snd p))]"

text \<open>\<open>below p q\<close>: the path \<open>q\<close> lies in the directory \<open>p\<close>, at any depth.\<close>

definition below :: "path \<Rightarrow> path \<Rightarrow> bool" where
  "below p q =
     (fst q = fst p \<and> length (snd p) < length (snd q) \<and>
      take (length (snd p)) (snd q) = snd p \<and>
      ''..'' \<notin> set (drop (length (snd p)) (snd q)))"

text \<open>
  What a file holds: a text, or the JSON text of a manifest (\<^verbatim>\<open>JSON.stringify\<close> is not
  modelled).
\<close>

record manifest =
  name :: string
  version :: string
  isPrivate :: bool
  scripts :: "(string \<times> string) list"
  dependencies :: "(string \<times> string) list"
  browserslist :: "(string \<times> string list) list"

datatype content = Text string | Json manifest

text \<open>The regular files of the file system with their contents, and its directories.\<close>

record disk =
  regular :: "(path \<times> content) list"
  directories :: "path list"

definition isFile :: "disk \<Rightarrow> path \<Rightarrow> bool" where
  "isFile d p = (map_of (regular d) p \<noteq> None)"

text \<open>The root and the working directory (no segments) are always there.\<close>

definition isDirectory :: "disk \<Rightarrow> path \<Rightarrow> bool" where
  "isDirectory d p = (snd p = [] \<or> p \<in> set (directories d))"

text \<open>\<^verbatim>\<open>fs.pathExists(p)\<close>\<close>

definition pathExists :: "disk \<Rightarrow> path \<Rightarrow> bool" where
  "pathExists d p = (isFile d p \<or> isDirectory d p)"

text \<open>
  \<^verbatim>\<open>fs.ensureDir(p)\<close> creates the directory and those above it; \<open>None\<close> is a rejected
  call: one of them is a regular file.
\<close>

definition ensureDir :: "disk \<Rightarrow> path \<Rightarrow> disk option" where
  "ensureDir d p =
     (if list_ex (isFile d) (ancestors p) then None
      else Some (d \<lparr> directories := directories d @
                        filter (\<lambda>q. \<not> isDirectory d q) (ancestors p) \<rparr>))"

text \<open>
  \<^verbatim>\<open>fs.writeFile(p, c)\<close> creates or overwrites a regular file; the call is rejected
  when the path is a directory or the directory of the path does not exist.
\<close>

definition writeFile :: "disk \<Rightarrow> path \<Rightarrow> content \<Rightarrow> disk option" where
  "writeFile d p c =
     (if isDirectory d p \<or> \<not> isDirectory d (dirname p) then None
      else Some (d \<lparr> regular := AList.update p c (regular d) \<rparr>))"

subsection \<open>deploy\<close>

datatype failure = DeploymentFailed

text \<open>The fields of the class, which its constructor reads from the process environment.\<close>

record previewDeployment =
  stagingDir :: string
  baseUrl :: string
  usePathBased :: bool
  previewBaseUrl :: string

text \<open>\<^verbatim>\<open>process.env.K || d\<close>\<close>

definition orElse :: "string option \<Rightarrow> string \<Rightarrow> string" where
  "orElse v d = (case v of None \<Rightarrow> d | Some s \<Rightarrow> if s = [] then d else s)"

definition newPreviewDeployment :: "(string \<Rightarrow> string option) \<Rightarrow> previewDeployment" where
  "newPreviewDeployment env =
     \<lparr> stagingDir = orElse (env ''STAGING_DIR'') ''/var/www/staging'',
        baseUrl = orElse (env ''STAGING_DOMAIN'') ''staging.yourdomain.com'',
        usePathBased = (env ''USE_PATH_BASED_PREVIEWS'' = Some ''true''),
        previewBaseUrl = orElse (env ''PREVIEW_BASE_URL'') ''http://localhost/preview'' \<rparr>"

text \<open>
  The body of the \<^verbatim>\<open>map\<close> over the processed files: one file is written under the
  deployment directory.
\<close>

definition writeProcessed :: "path \<Rightarrow> disk \<Rightarrow> string \<times> string \<Rightarrow> disk option" where
  "writeProcessed deploymentPath d entry =
     (case entry of (filePath, c) \<Rightarrow>
        let fullPath = joinPath deploymentPath filePath
        in case ensureDir d (dirname fullPath) of
             None \<Rightarrow> None
           | Some d1 \<Rightarrow> writeFile d1 fullPath (Text c))"

text \<open>All of them, one after the other; a rejected call rejects the \<^verbatim>\<open>Promise.all\<close>.\<close>

fun writeAll :: "path \<Rightarrow> disk \<Rightarrow> (string \<times> string) list \<Rightarrow> disk option" where
  "writeAll deploymentPath d [] = Some d"
| "writeAll deploymentPath d (entry # entries) =
     (case writeProcessed deploymentPath d entry of
        None \<Rightarrow> None
      | Some d1 \<Rightarrow> writeAll deploymentPath d1 entries)"

text \<open>
  \<^verbatim>\<open>s.toLowerCase()\<close> on one code unit below 256: the letters A to Z and the capitals
  from U+00C0 to U+00DE, without the multiplication sign U+00D7, move up by 32.
\<close>

definition toLower :: "char \<Rightarrow> char" where
  "toLower c =
     (if (65 \<le> codeUnit c \<and> codeUnit c \<le> 90) \<or>
         (192 \<le> codeUnit c \<and> codeUnit c \<le> 222 \<and> codeUnit c \<noteq> 215)
      then (case c of Char b0 b1 b2 b3 b4 b5 b6 b7 \<Rightarrow> Char b0 b1 b2 b3 b4 True b6 b7)
      else c)"

text \<open>
  \<^verbatim>\<open>createPackageJson\<close>: the object \<^verbatim>\<open>packageJson\<close>, written to \<^verbatim>\<open>package.json\<close> under
  the deployment directory.
\<close>

definition packageJson :: "string \<Rightarrow> manifest" where
  "packageJson n =
     \<lparr> name = map toLower n,
        version = ''1.0.0'',
        isPrivate = True,
        scripts = [(''start'', ''serve -s build''), (''build'', ''react-scripts build''),
                   (''dev'', ''react-scripts start'')],
        dependencies = [(''react'', ''^18.2.0''), (''react-dom'', ''^18.2.0''),
                        (''react-scripts'', ''5.0.1'')],
        browserslist =
          [(''production'', [''>0.2%'', ''not dead'', ''not op_mini all'']),
           (''development'', [''last 1 chrome version'', ''last 1 firefox version'',
                              ''last 1 safari version''])] \<rparr>"

definition createPackageJson :: "disk \<Rightarrow> path \<Rightarrow> string \<Rightarrow> disk option" where
  "createPackageJson d deploymentPath n =
     writeFile d (joinPath deploymentPath ''package.json'') (Json (packageJson n))"

text \<open>
  \<^verbatim>\<open>fs.copy(srcPath, deploymentPath, { overwrite: true })\<close> copies what lies in the
  directory \<^verbatim>\<open>src\<close> to the deployment directory, path by path. \<open>None\<close> stands for the
  runs in which the call throws or its result depends on the order in which the library
  walks the directory: \<^verbatim>\<open>src\<close> is a regular file; a copy would land in \<^verbatim>\<open>src\<close> itself; a
  file would replace a directory, or a directory a file.
\<close>

definition moved :: "path \<Rightarrow> path \<Rightarrow> path \<Rightarrow> path" where
  "moved srcPath deploymentPath q = (fst q, snd deploymentPath @ drop (length (snd srcPath)) (snd q))"

definition copySrc :: "disk \<Rightarrow> path \<Rightarrow> path \<Rightarrow> disk option" where
  "copySrc d srcPath deploymentPath =
     (let fs = filter (\<lambda>(q, c). below srcPath q) (regular d);
          ds = filter (below srcPath) (directories d);
          into = (\<lambda>q. moved srcPath deploymentPath q)
      in if isFile d srcPath \<or>
            list_ex (\<lambda>q. into q = srcPath \<or> below srcPath (into q)) (map fst fs @ ds) \<or>
            list_ex (\<lambda>(q, c). isDirectory d (into q)) fs \<or>
            list_ex (\<lambda>q. isFile d (into q)) ds
         then None
         else Some (d \<lparr> regular := foldl (\<lambda>r (q, c). AList.update (into q) c r) (regular d) fs,
                        directories := directories d @
                          filter (\<lambda>q. \<not> isDirectory d q) (remdups (map into ds)) \<rparr>))"

text \<open>
  \<^verbatim>\<open>buildProject\<close>: copy \<^verbatim>\<open>src\<close>, then make sure that there is an \<^verbatim>\<open>index.html\<close>. Its
  \<^verbatim>\<open>catch\<close> swallows a failure of the copy and leaves the directory as the copy left it:
  that is \<open>None\<close>.
\<close>

definition buildProject :: "disk \<Rightarrow> path \<Rightarrow> disk option" where
  "buildProject d deploymentPath =
     (let srcPath = joinPath deploymentPath ''src'';
          copied = (if pathExists d srcPath then copySrc d srcPath deploymentPath else Some d)
      in case copied of
           None \<Rightarrow> None
         | Some d1 \<Rightarrow>
             let indexPath = joinPath deploymentPath ''index.html''
             in if \<not> pathExists d1 indexPath
                then writeFile d1 indexPath (Text (createIndexHtml ''Generated App''))
                else Some d1)"

text \<open>
  \<^verbatim>\<open>deploy\<close>, on the file system \<open>d\<close>. \<open>landed\<close> orders the concurrent writes of the
  processed files: where two of them go to one path, the one that lands last stays. The
  result is the preview URL and the file system after the build step, or the error that
  \<^verbatim>\<open>deploy\<close> throws when a call of the file system is rejected.
\<close>

definition deploy ::
  "previewDeployment \<Rightarrow> (string \<Rightarrow> nat) \<Rightarrow> disk \<Rightarrow> string \<Rightarrow> string \<Rightarrow>
     failure + string \<times> disk option" where
  "deploy this landed d src deploymentId =
     (let subdomain = ''app-'' @ deploymentId;
          deploymentPath = pathJoin (stagingDir this) subdomain
      in case ensureDir d deploymentPath of
           None \<Rightarrow> Inl DeploymentFailed
         | Some d1 \<Rightarrow>
             let processedFiles = processCode src
             in case writeAll deploymentPath d1 (sort_key (\<lambda>entry. landed (fst entry)) processedFiles) of
                  None \<Rightarrow> Inl DeploymentFailed
                | Some d2 \<Rightarrow>
                    (case (if missing processedFiles ''package.json''
                           then createPackageJson d2 deploymentPath subdomain else Some d2) of
                       None \<Rightarrow> Inl DeploymentFailed
                     | Some d3 \<Rightarrow>
                         Inr (if usePathBased this
                              then previewBaseUrl this @ ''/'' @ deploymentId
                              else ''http://'' @ subdomain @ ''.'' @ baseUrl this,
                              buildProject d3 deploymentPath)))"


subsection \<open>Example texts\<close>

text \<open>Two fenced blocks, both application modules.\<close>

definition srcTwo :: string where
  "srcTwo =
     ''```tsx\<newline>function App() { return <Hi/>; }\<newline>```\<newline>'' @
     ''```tsx\<newline>const Hi = () => <b>hi</b>;\<newline>```''"

text \<open>A fenced block that is never closed, as in a reply cut off at the token limit.\<close>

definition srcCut :: string where
  "srcCut = ''```tsx\<newline>function App() { return null; }''"

text \<open>A module without fences.\<close>

definition srcModule :: string where
  "srcModule = ''import React from 'react';\<newline>export default function App() { return null; }''"

text \<open>A fenced block with a component written as an arrow function.\<close>

definition srcArrow :: string where
  "srcArrow = ''```tsx\<newline>const App = () => <b>hi</b>;\<newline>```''"

text \<open>A fenced document that a comment before it names.\<close>

definition srcNamed :: string where
  "srcNamed = ''// page.html\<newline>```\<newline><p>hi</p>\<newline>```''"

text \<open>
  A block of the loop keeps React file names for \<^verbatim>\<open>App.tsx\<close>: a \<open>Plain\<close> block never
  has one.
\<close>

fun plainOk :: "block \<Rightarrow> bool" where
  "plainOk (Plain f c) = (\<not> reactFile f)"
| "plainOk b = True"

text \<open>
  A reply whose prose gives a link before its only block; the block is an application
  module.
\<close>

definition srcUrl :: string where
  "srcUrl =
     ''See https://react.dev\<newline>'' @
     ''```tsx\<newline>export default function App() { return null; }\<newline>```''"

text \<open>Three blocks, each under a comment that names its file; two are application modules.\<close>

definition srcLabelled :: string where
  "srcLabelled =
     ''// styles.css\<newline>```css\<newline>body { margin: 0; }\<newline>```\<newline>'' @
     ''// App.tsx\<newline>```tsx\<newline>function App() { return <Hi/>; }\<newline>```\<newline>'' @
     ''// Hi.tsx\<newline>```tsx\<newline>const Hi = () => <b>hi</b>;\<newline>```''"

text \<open>Two application modules; the code of the first has a comment.\<close>

definition srcComment :: string where
  "srcComment =
     ''```tsx\<newline>// see e.g. the docs\<newline>function App() { return null; }\<newline>```\<newline>'' @
     ''```tsx\<newline>const Hi = () => null;\<newline>```''"

text \<open>An empty file system, and the service with no variable of the environment set.\<close>

definition freshDisk :: disk where
  "freshDisk = \<lparr> regular = [], directories = [] \<rparr>"

definition defaultDeployment :: previewDeployment where
  "defaultDeployment = newPreviewDeployment (\<lambda>k. None)"

text \<open>The deployment directory of the deployment \<^verbatim>\<open>42\<close>, and a path in it.\<close>

definition app42 :: "string list \<Rightarrow> path" where
  "app42 segs = (True, [''var'', ''www'', ''staging'', ''app-42''] @ segs)"


section \<open>Properties of the orchestrator\<close>

subsection \<open>The shape of a run\<close>

lemma constructor_enables_openai:
  "constructor ks = Inr orch \<Longrightarrow> OpenAI \<in> set (enabled orch)"
  by (auto simp: constructor_def enabled_def Let_def split: if_splits)

lemma generate_calls:
  "fst (generate orch env) =
     (if loggable (fst (analyze (analysisReply env))) (snd (analyze (analysisReply env)))
      then JudgeAnalysis # map Generation (enabled orch) @
           (if 1 < length (collect orch env) then [JudgeEvaluation] else [])
      else [JudgeAnalysis])"
  by (auto simp: generate_def Let_def split: prod.splits list.splits)

lemma generation_called:
  "Generation a \<in> set (fst (generate orch env)) \<longleftrightarrow>
     loggable (fst (analyze (analysisReply env))) (snd (analyze (analysisReply env))) \<and> a \<in> set (enabled orch)"
  by (auto simp: generate_calls)

lemma generate_result:
  "snd (generate orch env) =
     (if \<not> loggable (fst (analyze (analysisReply env))) (snd (analyze (analysisReply env))) then Inl TypeError
      else case collect orch env of
             [] \<Rightarrow> Inl NoSubmissions
           | s0 # others \<Rightarrow>
               Inr \<lparr> bestCode = code (if others \<noteq> [] then evaluate s0 others (evaluationReply env) else s0),
                      bestModel = model (if others \<noteq> [] then evaluate s0 others (evaluationReply env) else s0),
                      score = 17 / 2,
                      models = map model (collect orch env),
                      executionDetails =
                        \<lparr> submissions = collect orch env,
                           totalModels = length (collect orch env),
                           framework = fst (analyze (analysisReply env)),
                           requirements = snd (analyze (analysisReply env)) \<rparr> \<rparr>)"
  by (auto simp: generate_def Let_def split: prod.splits list.splits)

text \<open>
  Up to the order of arrival, the collected submissions are those of the enabled adapters
  whose call returned.
\<close>

lemma collect_mset:
  "mset (collect orch env) = mset (List.map_filter (submit env) (enabled orch))"
proof -
  have "mset (sort_key (finish env) (enabled orch)) = mset (enabled orch)"
    by simp
  then have "mset (filter (\<lambda>x. submit env x \<noteq> None) (sort_key (finish env) (enabled orch))) =
             mset (filter (\<lambda>x. submit env x \<noteq> None) (enabled orch))"
    by (simp only: mset_filter)
  then have "image_mset (the \<circ> submit env)
               (mset (filter (\<lambda>x. submit env x \<noteq> None) (sort_key (finish env) (enabled orch)))) =
             image_mset (the \<circ> submit env)
               (mset (filter (\<lambda>x. submit env x \<noteq> None) (enabled orch)))"
    by (rule arg_cong)
  then show ?thesis
    by (simp add: collect_def map_filter_def)
qed

lemma collect_Nil:
  "collect orch env = [] \<longleftrightarrow> (\<forall>a \<in> set (enabled orch). invoke env a = Threw)"
proof -
  have "submit env a = None \<longleftrightarrow> invoke env a = Threw" for a
    by (simp add: submit_def split: invocation.splits)
  then show ?thesis
    by (simp add: collect_def map_filter_def filter_empty_conv)
qed

text \<open>
  Spelled out: a submission was collected exactly for each enabled adapter whose call
  returned, with the text and the time of that call, and once only.
\<close>

lemma modelName_inj: "modelName a = modelName b \<Longrightarrow> a = b"
  by (cases a; cases b; simp)

lemma distinct_options:
  "distinct ((if c1 then [OpenAI] else []) @ (if c2 then [Claude] else []) @
             (if c3 then [Grok] else []) @ (if c4 then [Llama] else []) @
             (if c5 then [DeepSeek] else []) @ (if c6 then [Gemini] else []) @
             (if c7 then [Mistral] else []))"
  by (cases c1; cases c2; cases c3; cases c4; cases c5; cases c6; cases c7; simp)

lemma distinct_enabled: "distinct (enabled orch)"
  unfolding enabled_def by (rule distinct_options)

lemma submit_Some:
  "submit env b = Some s \<longleftrightarrow>
     (\<exists>c t. invoke env b = Completed c t \<and>
        s = \<lparr> model = modelName b, code = c, reasoning = modelReasoning b,
              executionTime = t \<rparr>)"
  by (auto simp: submit_def split: invocation.splits)

lemma set_map_filter_Some: "set (List.map_filter f xs) = {y. \<exists>x \<in> set xs. f x = Some y}"
  by (induction xs) (auto simp: map_filter_simps split: option.splits)

lemma set_collect:
  "set (collect orch env) =
     {s. \<exists>b \<in> set (enabled orch). \<exists>c t. invoke env b = Completed c t \<and>
           s = \<lparr> model = modelName b, code = c, reasoning = modelReasoning b,
                 executionTime = t \<rparr>}"
  by (simp add: collect_def set_map_filter_Some submit_Some)

lemma returned_iff: "(submit env b \<noteq> None) = (invoke env b \<noteq> Threw)"
  by (simp add: submit_def split: invocation.splits)

lemma models_collect:
  "map model (collect orch env) =
     map modelName (filter (\<lambda>b. invoke env b \<noteq> Threw) (sort_key (finish env) (enabled orch)))"
proof -
  let ?xs = "filter (\<lambda>b. invoke env b \<noteq> Threw) (sort_key (finish env) (enabled orch))"
  have "collect orch env = map (the \<circ> submit env) ?xs"
    by (simp only: collect_def map_filter_def returned_iff)
  moreover have "map model (map (the \<circ> submit env) ?xs) = map modelName ?xs"
    by (simp add: submit_def split: invocation.splits)
  ultimately show ?thesis
    by simp
qed

lemma distinct_models_collect: "distinct (map model (collect orch env))"
proof -
  have "distinct (filter (\<lambda>b. invoke env b \<noteq> Threw) (sort_key (finish env) (enabled orch)))"
    by (simp add: distinct_enabled)
  moreover have "inj_on modelName A" for A
    by (rule inj_onI) (rule modelName_inj)
  ultimately show ?thesis
    by (simp only: models_collect distinct_map simp_thms)
qed

lemma length_collect:
  "length (collect orch env) = length (filter (\<lambda>b. invoke env b \<noteq> Threw) (enabled orch))"
proof -
  have "mset (filter (\<lambda>b. invoke env b \<noteq> Threw) (sort_key (finish env) (enabled orch))) =
        mset (filter (\<lambda>b. invoke env b \<noteq> Threw) (enabled orch))"
    by simp
  then have "length (filter (\<lambda>b. invoke env b \<noteq> Threw) (sort_key (finish env) (enabled orch))) =
             length (filter (\<lambda>b. invoke env b \<noteq> Threw) (enabled orch))"
    by (rule mset_eq_length)
  moreover have "length (collect orch env) = length (map model (collect orch env))"
    by simp
  ultimately show ?thesis
    by (simp only: models_collect length_map)
qed

text \<open>
  Whatever the fields of the orchestrator are: once the analysis step is over, a run
  without a successful generation call ends in \<open>NoSubmissions\<close>. The analysis step itself
  ends the run with a TypeError when its log line throws, as it does when the judge's
  \<^verbatim>\<open>requirements\<close> is a truthy value that is no array.
\<close>

lemma generate_no_submissions:
  assumes "loggable (fst (analyze (analysisReply env))) (snd (analyze (analysisReply env)))"
    and "enabled orch = [] \<or> (\<forall>a \<in> set (enabled orch). invoke env a = Threw)"
  shows "generate orch env = (JudgeAnalysis # map Generation (enabled orch), Inl NoSubmissions)"
proof -
  from assms(2) have "collect orch env = []"
    by (auto simp: collect_Nil)
  with assms(1) show ?thesis
    by (simp add: prod_eq_iff generate_calls generate_result)
qed

lemma generate_type_error:
  assumes "\<not> loggable (fst (analyze (analysisReply env))) (snd (analyze (analysisReply env)))"
  shows "generate orch env = ([JudgeAnalysis], Inl TypeError)"
  using assms by (simp add: prod_eq_iff generate_calls generate_result)

lemma evaluate_fallback:
  assumes "reply = InvokeFailed \<or> reply = ParseFailed \<or>
           (\<exists>result. reply = Parsed result \<and>
              (\<forall>w. orFirstScore result ''winner'' ''model'' = Inr w \<longrightarrow>
                 (\<forall>s \<in> set (s0 # others). w \<noteq> Some (JStr (model s)))))"
  shows "evaluate s0 others reply = s0"
proof -
  consider "reply = InvokeFailed" | "reply = ParseFailed"
    | result where "reply = Parsed result"
        "\<forall>w. orFirstScore result ''winner'' ''model'' = Inr w \<longrightarrow>
                 (\<forall>s \<in> set (s0 # others). w \<noteq> Some (JStr (model s)))"
    using assms by blast
  then show ?thesis
  proof cases
    case 3
    show ?thesis
    proof (cases "orFirstScore result ''winner'' ''model''")
      case (Inl e)
      with 3 show ?thesis by (simp add: evaluate_def)
    next
      case (Inr w)
      with 3 have "\<forall>s \<in> set (s0 # others). Some (JStr (model s)) \<noteq> w"
        by metis
      then have "find (\<lambda>s. Some (JStr (model s)) = w) (s0 # others) = None"
        unfolding find_None_iff by blast
      with 3 Inr show ?thesis
        by (simp add: evaluate_def split: sum.splits)
    qed
  qed (simp_all add: evaluate_def)
qed

lemma analyze_fallback:
  assumes "reply = InvokeFailed \<or> reply = ParseFailed \<or>
           (\<exists>v. reply = Parsed v \<and> (\<forall>kvs. v \<noteq> JObj kvs))"
  shows "analyze reply = (JStr ''react'', JArr [JStr ''basic functionality''])"
proof -
  consider "reply = InvokeFailed" | "reply = ParseFailed"
    | v where "reply = Parsed v" "\<forall>kvs. v \<noteq> JObj kvs"
    using assms by blast
  then show ?thesis
  proof cases
    case 3
    then show ?thesis
      by (cases v) (simp_all add: analyze_def defaultRequirements_def)
  qed (simp_all add: analyze_def defaultRequirements_def)
qed

subsection \<open>The example runs\<close>

lemma enabled_orchOpenAIGrok: "enabled orchOpenAIGrok = [OpenAI, Grok]"
  by (simp add: enabled_def orchOpenAIGrok_def)


lemma collect_envAllFail: "collect orchOpenAIGrok envAllFail = []"
  by (simp add: collect_def enabled_orchOpenAIGrok map_filter_def submit_def envAllFail_def)

lemma collect_envGrokOnly:
  "collect orchOpenAIGrok envGrokOnly = [subGrok ''function App() {}'' 1200]"
  by (simp add: collect_def enabled_orchOpenAIGrok map_filter_def submit_def envGrokOnly_def
        subGrok_def)

lemma collect_envScoresOnly:
  "collect orchOpenAIGrok envScoresOnly =
     [subOpenAI ''function A() {}'' 700, subGrok ''function B() {}'' 900]"
  by (simp add: collect_def enabled_orchOpenAIGrok map_filter_def submit_def envScoresOnly_def
        subGrok_def subOpenAI_def)

lemma collect_envUnknownWinner:
  "collect orchOpenAIGrok envUnknownWinner =
     [subGrok ''function B() {}'' 500, subOpenAI ''function A() {}'' 700]"
  by (simp add: collect_def enabled_orchOpenAIGrok map_filter_def submit_def envUnknownWinner_def
        subGrok_def subOpenAI_def)

lemma collect_envGrokWins:
  "collect orchOpenAIGrok envGrokWins =
     [subOpenAI ''function A() {}'' 700, subGrok ''function B() {}'' 900]"
  by (simp add: collect_def enabled_orchOpenAIGrok map_filter_def submit_def envGrokWins_def
        subGrok_def subOpenAI_def)

lemma analyze_envAllFail:
  "analyze (analysisReply envAllFail) = (JStr ''vue'', JArr [JStr ''basic functionality''])"
  by (simp add: envAllFail_def analyze_def defaultRequirements_def)

lemma analyze_envGrokOnly:
  "analyze (analysisReply envGrokOnly) = (JStr ''react'', JArr [JStr ''basic functionality''])"
  by (simp add: envGrokOnly_def analyze_def defaultRequirements_def)

lemma analyze_envScoresOnly:
  "analyze (analysisReply envScoresOnly) = (JStr ''react'', JArr [JStr ''basic functionality''])"
  by (simp add: envScoresOnly_def analyze_def defaultRequirements_def)

lemma analyze_envUnknownWinner:
  "analyze (analysisReply envUnknownWinner) =
     (JStr ''react'', JArr [JStr ''basic functionality''])"
  by (simp add: envUnknownWinner_def analyze_def defaultRequirements_def)

lemma analyze_envGrokWins:
  "analyze (analysisReply envGrokWins) = (JStr ''react'', JArr [JStr ''modern UI''])"
  by (simp add: envGrokWins_def analyze_def defaultRequirements_def)

lemma evaluate_envScoresOnly:
  "evaluate s0 others (evaluationReply envScoresOnly) =
     (case find (\<lambda>s. model s = ''Grok'') (s0 # others) of Some s \<Rightarrow> s | None \<Rightarrow> s0)"
  by (simp add: envScoresOnly_def evaluate_def orFirstScore_def)

lemma evaluate_envUnknownWinner:
  "evaluate s0 others (evaluationReply envUnknownWinner) =
     (case find (\<lambda>s. model s = ''GPT-4'') (s0 # others) of Some s \<Rightarrow> s | None \<Rightarrow> s0)"
  by (simp add: envUnknownWinner_def evaluate_def orFirstScore_def)

lemma evaluate_envGrokWins:
  "evaluate s0 others (evaluationReply envGrokWins) =
     (case find (\<lambda>s. model s = ''Grok'') (s0 # others) of Some s \<Rightarrow> s | None \<Rightarrow> s0)"
  by (simp add: envGrokWins_def evaluate_def orFirstScore_def)

lemma run_envAllFail:
  "generate orchOpenAIGrok envAllFail =
     ([JudgeAnalysis, Generation OpenAI, Generation Grok], Inl NoSubmissions)"
  by (simp add: generate_def loggable_def collect_envAllFail enabled_orchOpenAIGrok analyze_envAllFail)

lemma run_envGrokOnly:
  "generate orchOpenAIGrok envGrokOnly =
     ([JudgeAnalysis, Generation OpenAI, Generation Grok],
      Inr \<lparr> bestCode = ''function App() {}'', bestModel = ''Grok'', score = 17 / 2,
             models = [''Grok''],
             executionDetails =
               \<lparr> submissions = [subGrok ''function App() {}'' 1200],
                  totalModels = 1, framework = JStr ''react'',
                  requirements = JArr [JStr ''basic functionality''] \<rparr> \<rparr>)"
  by (simp add: generate_def loggable_def collect_envGrokOnly enabled_orchOpenAIGrok analyze_envGrokOnly)
     (simp add: subGrok_def)

lemma run_envScoresOnly:
  "generate orchOpenAIGrok envScoresOnly =
     ([JudgeAnalysis, Generation OpenAI, Generation Grok, JudgeEvaluation],
      Inr \<lparr> bestCode = ''function B() {}'', bestModel = ''Grok'', score = 17 / 2,
             models = [''OpenAI GPT-4o'', ''Grok''],
             executionDetails =
               \<lparr> submissions = [subOpenAI ''function A() {}'' 700, subGrok ''function B() {}'' 900],
                  totalModels = 2, framework = JStr ''react'',
                  requirements = JArr [JStr ''basic functionality''] \<rparr> \<rparr>)"
  by (simp add: generate_def loggable_def collect_envScoresOnly enabled_orchOpenAIGrok analyze_envScoresOnly
        evaluate_envScoresOnly)
     (simp add: subGrok_def subOpenAI_def)

lemma run_envUnknownWinner:
  "generate orchOpenAIGrok envUnknownWinner =
     ([JudgeAnalysis, Generation OpenAI, Generation Grok, JudgeEvaluation],
      Inr \<lparr> bestCode = ''function B() {}'', bestModel = ''Grok'', score = 17 / 2,
             models = [''Grok'', ''OpenAI GPT-4o''],
             executionDetails =
               \<lparr> submissions = [subGrok ''function B() {}'' 500, subOpenAI ''function A() {}'' 700],
                  totalModels = 2, framework = JStr ''react'',
                  requirements = JArr [JStr ''basic functionality''] \<rparr> \<rparr>)"
  by (simp add: generate_def loggable_def collect_envUnknownWinner enabled_orchOpenAIGrok
        analyze_envUnknownWinner evaluate_envUnknownWinner)
     (simp add: subGrok_def subOpenAI_def)

lemma run_envGrokWins:
  "generate orchOpenAIGrok envGrokWins =
     ([JudgeAnalysis, Generation OpenAI, Generation Grok, JudgeEvaluation],
      Inr \<lparr> bestCode = ''function B() {}'', bestModel = ''Grok'', score = 17 / 2,
             models = [''OpenAI GPT-4o'', ''Grok''],
             executionDetails =
               \<lparr> submissions = [subOpenAI ''function A() {}'' 700, subGrok ''function B() {}'' 900],
                  totalModels = 2, framework = JStr ''react'',
                  requirements = JArr [JStr ''modern UI''] \<rparr> \<rparr>)"
  by (simp add: generate_def loggable_def collect_envGrokWins enabled_orchOpenAIGrok analyze_envGrokWins
        evaluate_envGrokWins)
     (simp add: subGrok_def subOpenAI_def)

text \<open>The analysis step ends this run before any generation call.\<close>

lemma run_envStringRequirements:
  "generate orchOpenAIGrok envStringRequirements = ([JudgeAnalysis], Inl TypeError)"
  by (rule generate_type_error)
     (simp add: envStringRequirements_def analyze_def defaultRequirements_def loggable_def)


subsection \<open>The claims about the orchestrator\<close>


text \<open>
  C2. Fan-out fault isolation: when a generation call of the run succeeds (the run made
  the call, in its fan-out step, and the call returned), the run returns normally. Its
  submissions are exactly those of the enabled adapters whose call returned: each such
  adapter has its submission there, with the text and the time of its call; every
  submission is one of these; no model occurs twice; and an adapter whose call throws has
  no submission there. So a call that throws neither ends the run nor removes the
  submission of another adapter.
\<close>

theorem fan_out_fault_isolation:
  assumes "Generation a \<in> set (fst (generate orch env))"
    and "invoke env a = Completed content ms"
  shows "\<exists>r. snd (generate orch env) = Inr r \<and>
           (\<forall>b \<in> set (enabled orch). \<forall>c t. invoke env b = Completed c t \<longrightarrow>
              \<lparr> model = modelName b, code = c, reasoning = modelReasoning b,
                 executionTime = t \<rparr> \<in> set (submissions (executionDetails r))) \<and>
           (\<forall>s \<in> set (submissions (executionDetails r)).
              \<exists>b \<in> set (enabled orch). \<exists>c t. invoke env b = Completed c t \<and>
                s = \<lparr> model = modelName b, code = c, reasoning = modelReasoning b,
                      executionTime = t \<rparr>) \<and>
           (\<forall>b. invoke env b = Threw \<longrightarrow>
              modelName b \<notin> model ` set (submissions (executionDetails r))) \<and>
           distinct (map model (submissions (executionDetails r))) \<and>
           length (submissions (executionDetails r)) =
             length (filter (\<lambda>b. invoke env b \<noteq> Threw) (enabled orch)) \<and>
           models r = map model (submissions (executionDetails r)) \<and>
           totalModels (executionDetails r) = length (submissions (executionDetails r))"
proof -
  from assms(1) have j: "loggable (fst (analyze (analysisReply env))) (snd (analyze (analysisReply env)))"
    and a: "a \<in> set (enabled orch)"
    by (auto simp: generation_called)
  from a assms(2) have "collect orch env \<noteq> []"
    unfolding collect_Nil by (metis invocation.distinct(1))
  then obtain s0 others where c: "collect orch env = s0 # others"
    by (cases "collect orch env") auto
  define r where "r = projr (snd (generate orch env))"
  have res: "snd (generate orch env) = Inr r"
    using j c by (simp add: r_def generate_result)
  have subs: "submissions (executionDetails r) = collect orch env"
    using j c by (simp add: r_def generate_result)
  have rest: "models r = map model (collect orch env)"
    "totalModels (executionDetails r) = length (collect orch env)"
    using j c by (simp_all add: r_def generate_result)
  have incl: "\<forall>b \<in> set (enabled orch). \<forall>c t. invoke env b = Completed c t \<longrightarrow>
      \<lparr> model = modelName b, code = c, reasoning = modelReasoning b,
         executionTime = t \<rparr> \<in> set (collect orch env)"
    unfolding set_collect by blast
  have only: "\<forall>s \<in> set (collect orch env).
      \<exists>b \<in> set (enabled orch). \<exists>c t. invoke env b = Completed c t \<and>
        s = \<lparr> model = modelName b, code = c, reasoning = modelReasoning b,
              executionTime = t \<rparr>"
    unfolding set_collect by blast
  have excl: "\<forall>b. invoke env b = Threw \<longrightarrow> modelName b \<notin> model ` set (collect orch env)"
  proof (intro allI impI notI)
    fix b
    assume t: "invoke env b = Threw" and "modelName b \<in> model ` set (collect orch env)"
    then obtain s where "s \<in> set (collect orch env)" and m: "model s = modelName b"
      by force
    with only obtain b' c t' where "invoke env b' = Completed c t'" and "model s = modelName b'"
      by force
    with m have "b' = b" and "invoke env b' \<noteq> Threw"
      by (auto dest: modelName_inj)
    with t show False
      by simp
  qed
  from res subs rest incl only excl distinct_models_collect [of orch env]
    length_collect [of orch env]
  show ?thesis
    by (intro exI [of _ r]) (simp only: simp_thms)
qed

theorem fan_out_fault_isolation_witness:
  "Generation Grok \<in> set (fst (generate orchOpenAIGrok envGrokOnly)) \<and>
   invoke envGrokOnly Grok = Completed ''function App() {}'' 1200 \<and>
   invoke envGrokOnly OpenAI = Threw \<and>
   enabled orchOpenAIGrok = [OpenAI, Grok] \<and>
   (\<exists>r. snd (generate orchOpenAIGrok envGrokOnly) = Inr r \<and>
        submissions (executionDetails r) =
          [\<lparr> model = ''Grok'', code = ''function App() {}'',
              reasoning = ''Creative problem-solving and reasoning'', executionTime = 1200 \<rparr>] \<and>
        models r = [''Grok''] \<and>
        modelName OpenAI \<notin> model ` set (submissions (executionDetails r)))"
proof -
  have h1: "Generation Grok \<in> set (fst (generate orchOpenAIGrok envGrokOnly))"
    by (simp add: run_envGrokOnly)
  have h2: "invoke envGrokOnly Grok = Completed ''function App() {}'' 1200"
    by (simp add: envGrokOnly_def)
  have h3: "invoke envGrokOnly OpenAI = Threw"
    by (simp add: envGrokOnly_def)
  from fan_out_fault_isolation [OF h1 h2] h1 h2 h3 show ?thesis
    by (simp add: run_envGrokOnly enabled_orchOpenAIGrok subGrok_def)
qed

text \<open>
  C3. Single-submission shortcut: when exactly one submission was collected, it is the
  winner and the run makes no evaluation call to the judge.
\<close>

theorem single_submission_shortcut:
  assumes "generate orch env = (calls, Inr r)"
    and "submissions (executionDetails r) = [s]"
  shows "bestCode r = code s \<and> bestModel r = model s \<and> JudgeEvaluation \<notin> set calls"
proof -
  from assms(1) have res: "snd (generate orch env) = Inr r"
    and cs: "calls = fst (generate orch env)"
    by simp_all
  from res have j: "loggable (fst (analyze (analysisReply env))) (snd (analyze (analysisReply env)))"
    by (auto simp: generate_result split: if_splits)
  from res j assms(2) have c: "collect orch env = [s]"
    by (auto simp: generate_result split: list.splits)
  from res j c have "bestCode r = code s \<and> bestModel r = model s"
    by (auto simp: generate_result)
  moreover from cs j c have "JudgeEvaluation \<notin> set calls"
    by (auto simp: generate_calls)
  ultimately show ?thesis by simp
qed

theorem single_submission_shortcut_witness:
  "fst (generate orchOpenAIGrok envGrokOnly) = [JudgeAnalysis, Generation OpenAI, Generation Grok] \<and>
   submissions (executionDetails (projr (snd (generate orchOpenAIGrok envGrokOnly)))) =
     [subGrok ''function App() {}'' 1200] \<and>
   bestCode (projr (snd (generate orchOpenAIGrok envGrokOnly))) = ''function App() {}'' \<and>
   bestModel (projr (snd (generate orchOpenAIGrok envGrokOnly))) = ''Grok'' \<and>
   JudgeEvaluation \<notin> set (fst (generate orchOpenAIGrok envGrokOnly))"
proof -
  let ?r = "projr (snd (generate orchOpenAIGrok envGrokOnly))"
  have h1: "generate orchOpenAIGrok envGrokOnly =
              ([JudgeAnalysis, Generation OpenAI, Generation Grok], Inr ?r)"
    by (simp add: run_envGrokOnly)
  have h2: "submissions (executionDetails ?r) = [subGrok ''function App() {}'' 1200]"
    by (simp add: run_envGrokOnly)
  from single_submission_shortcut [OF h1 h2] show ?thesis
    by (simp add: run_envGrokOnly subGrok_def)
qed

text \<open>
  C4, as the code has it. With several submissions the first one in arrival order is the
  winner when the judge call fails, when its reply is not JSON, and when the winner name
  the code reads from the reply matches no submission. The code reads that name as
  \<^verbatim>\<open>result.winner || result.scores[0]?.model\<close>: a reply without a \<^verbatim>\<open>winner\<close> field
  still selects the model of its first \<^verbatim>\<open>scores\<close> entry. Reading the name can throw (no
  \<^verbatim>\<open>scores\<close> either); that is caught and gives the first submission too. Nothing of this
  reaches the caller: the run returns normally.
\<close>

theorem evaluator_fallback:
  assumes "snd (generate orch env) = Inr r"
    and "submissions (executionDetails r) = s0 # others" and "others \<noteq> []"
    and "evaluationReply env = InvokeFailed \<or> evaluationReply env = ParseFailed \<or>
           (\<exists>result. evaluationReply env = Parsed result \<and>
              (\<forall>w. orFirstScore result ''winner'' ''model'' = Inr w \<longrightarrow>
                 (\<forall>s \<in> set (s0 # others). w \<noteq> Some (JStr (model s)))))"
  shows "bestCode r = code s0 \<and> bestModel r = model s0"
proof -
  from assms(1) have j: "loggable (fst (analyze (analysisReply env))) (snd (analyze (analysisReply env)))"
    by (auto simp: generate_result split: if_splits)
  from assms(1) j assms(2) have c: "collect orch env = s0 # others"
    by (auto simp: generate_result split: list.splits)
  have "evaluate s0 others (evaluationReply env) = s0"
    using assms(4) by (rule evaluate_fallback)
  with assms(1) j c assms(3) show ?thesis
    by (auto simp: generate_result)
qed

theorem evaluator_fallback_witness:
  "submissions (executionDetails (projr (snd (generate orchOpenAIGrok envUnknownWinner)))) =
     [subGrok ''function B() {}'' 500, subOpenAI ''function A() {}'' 700] \<and>
   evaluationReply envUnknownWinner =
     Parsed (JObj [(''winner'', JStr ''GPT-4''), (''winnerScore'', JNum 9)]) \<and>
   orFirstScore (JObj [(''winner'', JStr ''GPT-4''), (''winnerScore'', JNum 9)])
     ''winner'' ''model'' = Inr (Some (JStr ''GPT-4'')) \<and>
   bestCode (projr (snd (generate orchOpenAIGrok envUnknownWinner))) = ''function B() {}'' \<and>
   bestModel (projr (snd (generate orchOpenAIGrok envUnknownWinner))) = ''Grok''"
proof -
  let ?r = "projr (snd (generate orchOpenAIGrok envUnknownWinner))"
  let ?v = "JObj [(''winner'', JStr ''GPT-4''), (''winnerScore'', JNum 9)]"
  have h1: "snd (generate orchOpenAIGrok envUnknownWinner) = Inr ?r"
    by (simp add: run_envUnknownWinner)
  have h2: "submissions (executionDetails ?r) =
              subGrok ''function B() {}'' 500 # [subOpenAI ''function A() {}'' 700]"
    by (simp add: run_envUnknownWinner)
  have h3: "[subOpenAI ''function A() {}'' 700] \<noteq> []"
    by simp
  have e: "evaluationReply envUnknownWinner = Parsed ?v"
    by (simp add: envUnknownWinner_def)
  have w: "orFirstScore ?v ''winner'' ''model'' = Inr (Some (JStr ''GPT-4''))"
    by (simp add: orFirstScore_def)
  have h4: "evaluationReply envUnknownWinner = InvokeFailed \<or>
            evaluationReply envUnknownWinner = ParseFailed \<or>
            (\<exists>result. evaluationReply envUnknownWinner = Parsed result \<and>
               (\<forall>w. orFirstScore result ''winner'' ''model'' = Inr w \<longrightarrow>
                  (\<forall>s \<in> set (subGrok ''function B() {}'' 500 # [subOpenAI ''function A() {}'' 700]).
                     w \<noteq> Some (JStr (model s)))))"
    using e w by (simp add: subGrok_def subOpenAI_def)
  from evaluator_fallback [OF h1 h2 h3 h4] h2 e w show ?thesis
    by (simp add: subGrok_def)
qed

text \<open>
  C4, as the claim states it, fails: the judge's reply omits \<^verbatim>\<open>winner\<close>, and the winner
  is Grok, the second submission in arrival order, because Grok is the model of the first
  \<^verbatim>\<open>scores\<close> entry.
\<close>

theorem evaluator_fallback_counterexample:
  "models (projr (snd (generate orchOpenAIGrok envScoresOnly))) = [''OpenAI GPT-4o'', ''Grok''] \<and>
   getProp (Some (JObj [(''scores'', JArr [JObj [(''model'', JStr ''Grok''), (''score'', JNum 9)],
                                     JObj [(''model'', JStr ''OpenAI GPT-4o''), (''score'', JNum 7)]]),
                  (''winnerScore'', JNum 9)])) ''winner'' = Inr None \<and>
   evaluationReply envScoresOnly =
     Parsed (JObj [(''scores'', JArr [JObj [(''model'', JStr ''Grok''), (''score'', JNum 9)],
                                      JObj [(''model'', JStr ''OpenAI GPT-4o''), (''score'', JNum 7)]]),
                   (''winnerScore'', JNum 9)]) \<and>
   bestModel (projr (snd (generate orchOpenAIGrok envScoresOnly))) = ''Grok'' \<and>
   bestModel (projr (snd (generate orchOpenAIGrok envScoresOnly))) \<noteq>
     hd (models (projr (snd (generate orchOpenAIGrok envScoresOnly))))"
  by (simp add: run_envScoresOnly) (simp add: envScoresOnly_def)

text \<open>
  C5, as the code has it. When the judge call of the analysis fails, its reply is not
  JSON, or the reply decodes to a value that is no object, the analysis is exactly
  framework \<^verbatim>\<open>react\<close> and requirements \<^verbatim>\<open>["basic functionality"]\<close>, and the run goes on: it
  starts the generation call of every enabled adapter and does not end in a TypeError.
\<close>

theorem analyzer_fallback:
  assumes "analysisReply env = InvokeFailed \<or> analysisReply env = ParseFailed \<or>
           (\<exists>v. analysisReply env = Parsed v \<and> (\<forall>kvs. v \<noteq> JObj kvs))"
  shows "analyze (analysisReply env) = (JStr ''react'', JArr [JStr ''basic functionality'']) \<and>
         fst (generate orch env) =
           JudgeAnalysis # map Generation (enabled orch) @
           (if 1 < length (collect orch env) then [JudgeEvaluation] else []) \<and>
         snd (generate orch env) \<noteq> Inl TypeError \<and>
         (\<forall>r. snd (generate orch env) = Inr r \<longrightarrow>
              framework (executionDetails r) = JStr ''react'' \<and>
              requirements (executionDetails r) = JArr [JStr ''basic functionality''])"
proof -
  have a: "analyze (analysisReply env) = (JStr ''react'', JArr [JStr ''basic functionality''])"
    using assms by (rule analyze_fallback)
  then show ?thesis
    by (auto simp: generate_result generate_calls loggable_def split: list.splits)
qed

theorem analyzer_fallback_witness:
  "analysisReply envGrokOnly = ParseFailed \<and>
   analyze (analysisReply envGrokOnly) = (JStr ''react'', JArr [JStr ''basic functionality'']) \<and>
   fst (generate orchOpenAIGrok envGrokOnly) = [JudgeAnalysis, Generation OpenAI, Generation Grok] \<and>
   snd (generate orchOpenAIGrok envGrokOnly) \<noteq> Inl TypeError \<and>
   framework (executionDetails (projr (snd (generate orchOpenAIGrok envGrokOnly)))) = JStr ''react'' \<and>
   requirements (executionDetails (projr (snd (generate orchOpenAIGrok envGrokOnly)))) =
     JArr [JStr ''basic functionality'']"
proof -
  have h: "analysisReply envGrokOnly = InvokeFailed \<or> analysisReply envGrokOnly = ParseFailed \<or>
           (\<exists>v. analysisReply envGrokOnly = Parsed v \<and> (\<forall>kvs. v \<noteq> JObj kvs))"
    by (simp add: envGrokOnly_def)
  have p: "analysisReply envGrokOnly = ParseFailed"
    by (simp add: envGrokOnly_def)
  from analyzer_fallback [OF h, of orchOpenAIGrok] p show ?thesis
    by (simp add: run_envGrokOnly)
qed

text \<open>
  C5, as the claim states it, fails: after a failed judge call the framework is
  \<^verbatim>\<open>react\<close>, not \<^verbatim>\<open>generic UI\<close>.
\<close>

theorem analyzer_fallback_counterexample:
  "analysisReply envScoresOnly = InvokeFailed \<and>
   analyze (analysisReply envScoresOnly) \<noteq>
     (JStr ''generic UI'', JArr [JStr ''basic functionality'']) \<and>
   framework (executionDetails (projr (snd (generate orchOpenAIGrok envScoresOnly)))) =
     JStr ''react''"
  by (simp add: run_envScoresOnly analyze_envScoresOnly) (simp add: envScoresOnly_def)

text \<open>
  C10. Every run that returns normally reports the score 8.5, whatever the judge said
  and whether or not the judge was asked.
\<close>

theorem score_is_constant:
  assumes "snd (generate orch env) = Inr r"
  shows "score r = 17 / 2"
  using assms by (auto simp: generate_result split: if_splits list.splits)

theorem score_is_constant_witness:
  "evaluationReply envGrokWins =
     Parsed (JObj [(''winner'', JStr ''Grok''), (''winnerScore'', JNum 9)]) \<and>
   snd (generate orchOpenAIGrok envGrokWins) =
     Inr (projr (snd (generate orchOpenAIGrok envGrokWins))) \<and>
   bestModel (projr (snd (generate orchOpenAIGrok envGrokWins))) = ''Grok'' \<and>
   score (projr (snd (generate orchOpenAIGrok envGrokWins))) = 17 / 2"
proof -
  have h: "snd (generate orchOpenAIGrok envGrokWins) =
             Inr (projr (snd (generate orchOpenAIGrok envGrokWins)))"
    by (simp add: run_envGrokWins)
  have e: "evaluationReply envGrokWins =
             Parsed (JObj [(''winner'', JStr ''Grok''), (''winnerScore'', JNum 9)])"
    by (simp add: envGrokWins_def)
  from score_is_constant [OF h] h e show ?thesis
    by (simp add: run_envGrokWins)
qed


section \<open>Properties of the deployment service\<close>

subsection \<open>The loop over the fenced blocks\<close>

lemma reactFile_App: "reactFile ''App.tsx''"
  by (simp add: reactFile_def endsWith_def)

lemma classify_Plain:
  "classify src i m = Plain f c \<Longrightarrow> \<not> reactFile f"
  by (auto simp: classify_def reactFile_def Let_def split: prod.splits option.splits if_splits)

lemma blocks_plainOk: "b \<in> set (blocks src) \<Longrightarrow> plainOk b"
proof -
  assume "b \<in> set (blocks src)"
  then obtain i m where b: "b = classify src i m"
    by (auto simp: blocks_def Let_def)
  show ?thesis
  proof (cases b)
    case (Plain f c)
    with b classify_Plain [of src i m f c] show ?thesis by (metis plainOk.simps(1))
  qed simp_all
qed

lemma contentOf_update: "contentOf (AList.update k v fs) k' = (if k' = k then v else contentOf fs k')"
  by (simp add: contentOf_def update_conv')

lemma keys_update: "set (keys (AList.update k v fs)) = insert k (set (keys fs))"
  by (simp add: keys_def dom_update)

lemma distinct_keys_update: "distinct (keys fs) \<Longrightarrow> distinct (keys (AList.update k v fs))"
  by (simp add: keys_def distinct_update)

lemma keys_store:
  "set (keys (store fs b)) =
     set (keys fs) \<union> (case b of Skip \<Rightarrow> {} | Module c \<Rightarrow> {''App.tsx''} | Plain f c \<Rightarrow> {f})"
  by (cases b) (auto simp: keys_update Let_def)

lemma distinct_store: "distinct (keys fs) \<Longrightarrow> distinct (keys (store fs b))"
  by (cases b) (auto simp: distinct_keys_update Let_def)

lemma map_of_store_Module:
  "map_of (store fs (Module c)) ''App.tsx'' =
     Some (contentOf fs ''App.tsx'' @ transformForBrowser c @ ''\<newline>\<newline>'')"
  by (auto simp: Let_def update_conv' contentOf_def missing_def split: option.splits)

lemma contentOf_store_Module:
  "contentOf (store fs (Module c)) ''App.tsx'' =
     contentOf fs ''App.tsx'' @ transformForBrowser c @ ''\<newline>\<newline>''"
  using map_of_store_Module [of fs c] by (simp add: contentOf_def)

lemma map_of_store_Plain:
  "f \<noteq> ''App.tsx'' \<Longrightarrow> map_of (store fs (Plain f c)) ''App.tsx'' = map_of fs ''App.tsx''"
  by (simp add: update_conv')

declare store.simps(2) [simp del]

lemma map_of_store_other:
  "plainOk b \<Longrightarrow> modules [b] = [] \<Longrightarrow> map_of (store fs b) ''App.tsx'' = map_of fs ''App.tsx''"
  using reactFile_App by (cases b) (auto simp: update_conv')

lemma foldl_store_app:
  "\<forall>b \<in> set bs. plainOk b \<Longrightarrow>
   map_of (foldl store fs bs) ''App.tsx'' =
     (if modules bs = [] then map_of fs ''App.tsx''
      else Some (contentOf fs ''App.tsx'' @ combined (modules bs)))"
proof (induction bs arbitrary: fs)
  case Nil
  then show ?case by simp
next
  case (Cons b bs)
  then have IH: "map_of (foldl store (store fs b) bs) ''App.tsx'' =
     (if modules bs = [] then map_of (store fs b) ''App.tsx''
      else Some (contentOf (store fs b) ''App.tsx'' @ combined (modules bs)))"
    by simp
  show ?case
  proof (cases b)
    case (Module c)
    then show ?thesis
      using IH by (simp add: map_of_store_Module contentOf_store_Module combined_def)
  next
    case Skip
    then show ?thesis using IH by simp
  next
    case (Plain f c)
    with Cons.prems have "f \<noteq> ''App.tsx''"
      using reactFile_App by auto
    with Plain show ?thesis
      using IH by (simp add: update_conv' contentOf_def)
  qed
qed

lemma distinct_foldl_store: "distinct (keys fs) \<Longrightarrow> distinct (keys (foldl store fs bs))"
  by (induction bs arbitrary: fs) (simp_all add: distinct_store)

lemma reactFile_foldl_store:
  "\<forall>b \<in> set bs. plainOk b \<Longrightarrow>
   \<forall>f \<in> set (keys fs). reactFile f \<longrightarrow> f = ''App.tsx'' \<Longrightarrow>
   \<forall>f \<in> set (keys (foldl store fs bs)). reactFile f \<longrightarrow> f = ''App.tsx''"
proof (induction bs arbitrary: fs)
  case Nil
  then show ?case by simp
next
  case (Cons b bs)
  have "\<forall>f \<in> set (keys (store fs b)). reactFile f \<longrightarrow> f = ''App.tsx''"
    using Cons.prems by (cases b) (auto simp: keys_store simp del: store.simps)
  with Cons show ?case by simp
qed

lemma app_in_keys_foldl_store:
  "modules bs \<noteq> [] \<Longrightarrow> ''App.tsx'' \<in> set (keys (foldl store fs bs))"
proof (induction bs arbitrary: fs)
  case Nil
  then show ?case by simp
next
  case (Cons b bs)
  have mono: "k \<in> set (keys gs) \<Longrightarrow> k \<in> set (keys (foldl store gs cs))" for k gs cs
    by (induction cs arbitrary: gs) (simp_all add: keys_store)
  show ?case
  proof (cases b)
    case (Module c)
    then have "''App.tsx'' \<in> set (keys (store fs b))"
      by (simp add: keys_store)
    then show ?thesis using mono by simp
  next
    case Skip
    with Cons show ?thesis by simp
  next
    case (Plain f c)
    with Cons show ?thesis by simp
  qed
qed

subsection \<open>After the loop\<close>

lemma contentOf_nonempty_key: "contentOf fs k \<noteq> [] \<Longrightarrow> k \<in> set (keys fs)"
proof (rule ccontr)
  assume a: "contentOf fs k \<noteq> []" and "k \<notin> set (keys fs)"
  then have "map_of fs k = None"
    by (simp add: keys_def map_of_eq_None_iff)
  with a show False by (simp add: contentOf_def)
qed

lemma not_missing_key: "\<not> missing fs k \<Longrightarrow> k \<in> set (keys fs)"
proof (rule ccontr)
  assume a: "\<not> missing fs k" and "k \<notin> set (keys fs)"
  then have "map_of fs k = None"
    by (simp add: keys_def map_of_eq_None_iff)
  with a show False by (simp add: missing_def)
qed

lemma not_missing_map_of: "\<not> missing fs k \<Longrightarrow> map_of fs k = Some (contentOf fs k)"
  by (auto simp: missing_def contentOf_def split: option.splits)

lemma keys_exposeMain: "set (keys (exposeMain fs)) = set (keys fs)"
proof (cases "missing fs ''App.tsx''")
  case True
  then show ?thesis by (simp add: exposeMain_def)
next
  case False
  then have "''App.tsx'' \<in> set (keys fs)" by (rule not_missing_key)
  then have "insert ''App.tsx'' (set (keys fs)) = set (keys fs)" by auto
  then show ?thesis
    by (simp add: exposeMain_def keys_update split: option.splits prod.splits)
qed

lemma distinct_exposeMain: "distinct (keys fs) \<Longrightarrow> distinct (keys (exposeMain fs))"
  by (simp add: exposeMain_def distinct_keys_update split: option.splits prod.splits)

lemma exposeMain_app:
  assumes "map_of fs ''App.tsx'' = Some t" and "t \<noteq> []"
  shows "\<exists>suffix. map_of (exposeMain fs) ''App.tsx'' = Some (t @ suffix) \<and>
           (suffix = [] \<or> (\<exists>n. suffix = windowApp n @ ''\<newline>''))"
proof -
  from assms have nm: "\<not> missing fs ''App.tsx''" and c: "contentOf fs ''App.tsx'' = t"
    by (simp_all add: missing_def contentOf_def)
  show ?thesis
  proof (cases "search mainComponentRegex t")
    case None
    with nm c assms show ?thesis by (simp add: exposeMain_def)
  next
    case (Some m)
    obtain i mt cp where m: "m = (i, mt, cp)" by (cases m) auto
    show ?thesis
    proof (cases "str_includes t ''window.App''")
      case True
      with nm c assms Some m show ?thesis by (simp add: exposeMain_def)
    next
      case False
      with nm c Some m have "map_of (exposeMain fs) ''App.tsx'' =
          Some (t @ windowApp (captured cp) @ ''\<newline>'')"
        by (simp add: exposeMain_def update_conv')
      then show ?thesis by blast
    qed
  qed
qed

lemma exposeMain_other: "k \<noteq> ''App.tsx'' \<Longrightarrow> map_of (exposeMain fs) k = map_of fs k"
  by (simp add: exposeMain_def update_conv' split: option.splits prod.splits)

lemma keys_ensureHtml:
  "set (keys (ensureHtml fs)) = set (keys fs) \<or>
   set (keys (ensureHtml fs)) = insert ''index.html'' (set (keys fs))"
  by (simp add: ensureHtml_def Let_def keys_update)

lemma distinct_ensureHtml: "distinct (keys fs) \<Longrightarrow> distinct (keys (ensureHtml fs))"
  by (simp add: ensureHtml_def Let_def distinct_keys_update)

lemma ensureHtml_other: "k \<noteq> ''index.html'' \<Longrightarrow> map_of (ensureHtml fs) k = map_of fs k"
  by (simp add: ensureHtml_def Let_def update_conv')

lemma str_includes_Nil: "str_includes [] p \<longleftrightarrow> p = []"
  by simp

lemma ensureHtml_index:
  assumes "k \<in> set (keys fs)" and "reactFile k"
  shows "''index.html'' \<in> set (keys (ensureHtml fs))"
proof -
  from assms have h: "list_ex (\<lambda>f. endsWith f ''.tsx'' \<or> endsWith f ''.jsx'') (keys fs)"
    by (auto simp: list_ex_iff reactFile_def)
  show ?thesis
  proof (cases "list_ex (\<lambda>f. endsWith f ''.html'') (keys fs) \<and>
                str_includes (contentOf fs ''index.html'') ''react'' \<and>
                str_includes (contentOf fs ''index.html'') ''babel''")
    case True
    then have "contentOf fs ''index.html'' \<noteq> []"
      by auto
    then have "''index.html'' \<in> set (keys fs)"
      by (rule contentOf_nonempty_key)
    with h True show ?thesis
      by (simp add: ensureHtml_def Let_def)
  next
    case False
    with h have "ensureHtml fs = AList.update ''index.html'' (createIndexHtml ''Generated App'') fs"
      by (auto simp: ensureHtml_def Let_def)
    then show ?thesis
      by (simp add: keys_update)
  qed
qed

lemma reactFile_index: "\<not> reactFile ''index.html''"
  by (simp add: reactFile_def endsWith_def)

lemma reactFile_ensureHtml:
  "\<forall>f \<in> set (keys fs). reactFile f \<longrightarrow> f = ''App.tsx'' \<Longrightarrow>
   \<forall>f \<in> set (keys (ensureHtml fs)). reactFile f \<longrightarrow> f = ''App.tsx''"
  using keys_ensureHtml [of fs] reactFile_index by auto

subsection \<open>The fenced path of processCode\<close>

lemma matchAt_Lit_first:
  "matchAt (seqs (Lit l # r # rs)) p s = Some x \<Longrightarrow> startsWith s l"
  by (simp add: matchAt_def split: if_splits option.splits)

lemma startsWith_Nil: "startsWith [] l \<longleftrightarrow> l = []"
  by (cases l) simp_all

lemma matchAllFrom_includes:
  "\<forall>q t x. matchAt r q t = Some x \<longrightarrow> startsWith t l \<Longrightarrow>
   matchAllFrom r i p s \<noteq> [] \<Longrightarrow> str_includes s l"
proof (induction r i p s rule: matchAllFrom.induct)
  case (1 r i p)
  then obtain x where "matchAt r p [] = Some x"
    by (auto split: option.splits)
  with 1 have "startsWith [] l" by blast
  then show ?case by (simp add: startsWith_Nil)
next
  case (2 r i p x xs)
  show ?case
  proof (cases "matchAt r p (x # xs)")
    case None
    with 2 show ?thesis by simp
  next
    case (Some y)
    with 2 have "startsWith (x # xs) l" by blast
    then show ?thesis by simp
  qed
qed

lemma codeBlock_includes:
  "matchAll codeBlockRegex src \<noteq> [] \<Longrightarrow> str_includes src ''```''"
proof -
  have "\<forall>q t x. matchAt codeBlockRegex q t = Some x \<longrightarrow> startsWith t ''```''"
    unfolding codeBlockRegex_def by (blast intro: matchAt_Lit_first)
  then show "matchAll codeBlockRegex src \<noteq> [] \<Longrightarrow> str_includes src ''```''"
    unfolding matchAll_def by (rule matchAllFrom_includes)
qed

lemma processCode_fenced:
  "matchAll codeBlockRegex src \<noteq> [] \<Longrightarrow>
   processCode src = ensureHtml (exposeMain (foldl store [] (blocks src)))"
  by (simp add: processCode_def codeBlock_includes)

lemma blocks_Nil: "matchAll codeBlockRegex src = [] \<Longrightarrow> blocks src = []"
  by (simp add: blocks_def)

lemma moduleBlocks_matches: "moduleBlocks src \<noteq> [] \<Longrightarrow> matchAll codeBlockRegex src \<noteq> []"
  using blocks_Nil [of src] by (auto simp: moduleBlocks_def)

lemma combined_nonempty: "cs \<noteq> [] \<Longrightarrow> combined cs \<noteq> []"
  by (cases cs) (simp_all add: combined_def)

lemma keys_Nil: "keys [] = []"
  by (simp add: keys_def)

lemma contentOf_Nil: "contentOf [] k = []"
  by (simp add: contentOf_def)

lemma fenced_app:
  assumes "moduleBlocks src \<noteq> []"
  shows "\<exists>suffix. map_of (processCode src) ''App.tsx'' =
                    Some (combined (moduleBlocks src) @ suffix) \<and>
                  (suffix = [] \<or> (\<exists>n. suffix = windowApp n @ ''\<newline>''))"
proof -
  let ?fs = "foldl store [] (blocks src)"
  have "\<forall>b \<in> set (blocks src). plainOk b"
    by (simp add: blocks_plainOk)
  then have "map_of ?fs ''App.tsx'' = Some (combined (moduleBlocks src))"
    using assms by (simp add: foldl_store_app moduleBlocks_def contentOf_Nil)
  moreover have "combined (moduleBlocks src) \<noteq> []"
    using assms by (rule combined_nonempty)
  ultimately obtain suffix where
    s: "map_of (exposeMain ?fs) ''App.tsx'' = Some (combined (moduleBlocks src) @ suffix)"
       "suffix = [] \<or> (\<exists>n. suffix = windowApp n @ ''\<newline>'')"
    using exposeMain_app by blast
  have "map_of (processCode src) ''App.tsx'' = map_of (exposeMain ?fs) ''App.tsx''"
    using assms by (simp add: processCode_fenced moduleBlocks_matches ensureHtml_other)
  with s show ?thesis by auto
qed

lemma fenced_keys:
  assumes "matchAll codeBlockRegex src \<noteq> []"
  shows "distinct (keys (processCode src))"
    and "\<forall>f \<in> set (keys (processCode src)). reactFile f \<longrightarrow> f = ''App.tsx''"
    and "moduleBlocks src \<noteq> [] \<Longrightarrow> ''App.tsx'' \<in> set (keys (processCode src))"
    and "f \<in> set (keys (processCode src)) \<Longrightarrow> reactFile f \<Longrightarrow>
         ''index.html'' \<in> set (keys (processCode src))"
proof -
  let ?fs = "foldl store [] (blocks src)"
  have p: "processCode src = ensureHtml (exposeMain ?fs)"
    using assms by (rule processCode_fenced)
  have ok: "\<forall>b \<in> set (blocks src). plainOk b"
    by (simp add: blocks_plainOk)
  show "distinct (keys (processCode src))"
    by (simp add: p distinct_ensureHtml distinct_exposeMain distinct_foldl_store keys_Nil)
  have r: "\<forall>f \<in> set (keys (exposeMain ?fs)). reactFile f \<longrightarrow> f = ''App.tsx''"
    using reactFile_foldl_store [OF ok, of "[]"] by (simp add: keys_exposeMain keys_Nil)
  then show r2: "\<forall>f \<in> set (keys (processCode src)). reactFile f \<longrightarrow> f = ''App.tsx''"
    unfolding p by (rule reactFile_ensureHtml)
  have sub: "set (keys (exposeMain ?fs)) \<subseteq> set (keys (processCode src))"
    using keys_ensureHtml [of "exposeMain ?fs"] by (auto simp: p)
  show a: "''App.tsx'' \<in> set (keys (processCode src))" if "moduleBlocks src \<noteq> []"
    using that sub app_in_keys_foldl_store [of "blocks src" "[]"]
    by (auto simp: moduleBlocks_def keys_exposeMain)
  show "''index.html'' \<in> set (keys (processCode src))"
    if f: "f \<in> set (keys (processCode src))" "reactFile f"
  proof -
    from f r2 have "f = ''App.tsx''" by blast
    with f have "f \<in> set (keys (exposeMain ?fs))"
      using keys_ensureHtml [of "exposeMain ?fs"] by (auto simp: p)
    with f show ?thesis
      unfolding p by (blast intro: ensureHtml_index)
  qed
qed

subsection \<open>Substrings of a concatenation\<close>

lemma startsWith_append: "startsWith xs p \<Longrightarrow> startsWith (xs @ ys) p"
  by (induction xs p rule: startsWith.induct) simp_all

lemma includes_append_right: "str_includes xs p \<Longrightarrow> str_includes (xs @ ys) p"
proof (induction xs)
  case Nil
  then show ?case by (cases ys) simp_all
next
  case (Cons x xs)
  then show ?case
    using startsWith_append [of "x # xs" p ys] by auto
qed

lemma includes_append_left: "str_includes ys p \<Longrightarrow> str_includes (xs @ ys) p"
  by (induction xs) simp_all

lemma startsWith_refl: "startsWith s s"
  by (induction s) simp_all

lemma includes_refl: "str_includes s s"
  by (cases s) (simp_all add: startsWith_refl)

lemma includes_middle: "str_includes (a @ s @ b) s"
  by (intro includes_append_left includes_append_right includes_refl)

lemma index_refers_to_window_App: "str_includes (createIndexHtml t) ''window.App''"
proof -
  have "str_includes indexTail ''window.App''"
    by (simp add: indexTail_def)
  then show ?thesis
    unfolding createIndexHtml_def by (intro includes_append_left)
qed

subsection \<open>The example texts, evaluated\<close>

lemmas rx_eval =
  matchAll_def matchAt_def search_def seqs.simps Plus_def ws0_def ws1_def quote_def semi_def
  letters_def braces_def unquoted_def isSpace_def isWord_def codeUnit_def wordAt_def
  nextChar_def captured_def Let_def

lemma matchAll_srcCut: "matchAll codeBlockRegex srcCut = []"
  by (simp add: rx_eval codeBlockRegex_def srcCut_def)

lemma matchAll_srcTwo:
  "matchAll codeBlockRegex srcTwo =
     [(0, ''```tsx\<newline>function App() { return <Hi/>; }\<newline>```'',
       Some ''function App() { return <Hi/>; }\<newline>''),
      (44, ''```tsx\<newline>const Hi = () => <b>hi</b>;\<newline>```'',
       Some ''const Hi = () => <b>hi</b>;\<newline>'')]"
  by (simp add: rx_eval codeBlockRegex_def srcTwo_def)


lemma classify_srcTwo_0:
  "classify srcTwo 0 (0, ''```tsx\<newline>function App() { return <Hi/>; }\<newline>```'',
       Some ''function App() { return <Hi/>; }\<newline>'') =
   Module ''function App() { return <Hi/>; }''"
  by (simp add: classify_def blockFileName_def extractFileName_def patterns_def trim_def
        endsWith_def rx_eval)

lemma classify_srcTwo_1:
  "classify srcTwo (Suc 0) (44, ''```tsx\<newline>const Hi = () => <b>hi</b>;\<newline>```'',
       Some ''const Hi = () => <b>hi</b>;\<newline>'') =
   Module ''const Hi = () => <b>hi</b>;''"
  by (simp add: classify_def blockFileName_def extractFileName_def patterns_def trim_def
        endsWith_def rx_eval srcTwo_def)

lemma blocks_srcTwo:
  "blocks srcTwo = [Module ''function App() { return <Hi/>; }'', Module ''const Hi = () => <b>hi</b>;'']"
  by (simp add: blocks_def matchAll_srcTwo classify_srcTwo_0 classify_srcTwo_1 upt_rec)

lemmas tf_eval =
  transformForBrowser_def stripped_def exposed_def importRegexes_def mountRegexes_def hooks_def
  hookRegex_def genericRegex_def annotationRegex_def reactFCRegex_def interfaceRegex_def
  typeRegex_def blankLinesRegex_def exportDefaultRegex_def exportDefaultFunctionRegex_def
  functionRegex_def functionNameRegex_def replaceAll_def trim_def toUpper_def windowApp_def

lemma transform_arrow:
  "transformForBrowser ''const App = () => <b>hi</b>;'' = ''const App = () => <b>hi</b>;''"
  by (simp add: tf_eval rx_eval)

lemma missing_Nil: "missing [] k"
  by (simp add: missing_def)

lemma blocks_srcArrow: "blocks srcArrow = [Module ''const App = () => <b>hi</b>;'']"
  by (simp add: blocks_def classify_def blockFileName_def extractFileName_def patterns_def
        trim_def endsWith_def rx_eval codeBlockRegex_def srcArrow_def)

lemma matchAll_srcArrow: "matchAll codeBlockRegex srcArrow \<noteq> []"
  using blocks_Nil [of srcArrow] by (auto simp: blocks_srcArrow)

lemma search_main_arrow:
  "search mainComponentRegex ''const App = () => <b>hi</b>;\<newline>\<newline>'' = None"
  by (simp add: mainComponentRegex_def rx_eval)

lemma processCode_srcArrow:
  "processCode srcArrow =
     [(''App.tsx'', ''const App = () => <b>hi</b>;\<newline>\<newline>''),
      (''index.html'', createIndexHtml ''Generated App'')]"
  by (simp add: processCode_fenced matchAll_srcArrow blocks_srcArrow store.simps
        transform_arrow missing_def contentOf_def exposeMain_def search_main_arrow
        ensureHtml_def keys_def endsWith_def Let_def)

lemma processCode_srcModule:
  "processCode srcModule = [(''src/App.tsx'', srcModule), (''index.html'', createIndexHtml ''React App'')]"
  by (simp add: processCode_def srcModule_def trim_def isSpace_def codeUnit_def)

lemma processCode_srcCut:
  "processCode srcCut =
     [(''index.html'', wrapInHtml ''<!-- No valid code blocks found in the response -->'')]"
  by (simp add: processCode_def matchAll_srcCut) (simp add: srcCut_def)

lemma wrap_differs:
  "wrapInHtml ''<!-- No valid code blocks found in the response -->'' \<noteq> wrapInHtml (trim srcCut)"
  by (simp add: wrapInHtml_def srcCut_def trim_def isSpace_def codeUnit_def)

lemma not_key_missing: "k \<notin> set (keys fs) \<Longrightarrow> missing fs k"
  by (simp add: missing_def keys_def map_of_eq_None_iff [THEN iffD2])

lemma processCode_srcNamed: "processCode srcNamed = [(''page.html'', ''<p>hi</p>'')]"
proof -
  have b: "blocks srcNamed = [Plain ''page.html'' ''<p>hi</p>'']"
    by (simp add: blocks_def classify_def blockFileName_def extractFileName_def patterns_def
          trim_def endsWith_def rx_eval codeBlockRegex_def srcNamed_def)
  have "matchAll codeBlockRegex srcNamed \<noteq> []"
    using blocks_Nil [of srcNamed] by (auto simp: b)
  then show ?thesis
    by (simp add: processCode_fenced b missing_def exposeMain_def ensureHtml_def keys_def
          endsWith_def Let_def)
qed

lemma processCode_srcUrl:
  "processCode srcUrl = [(''react.dev'', ''export default function App() { return null; }'')]"
proof -
  have b: "blocks srcUrl = [Plain ''react.dev'' ''export default function App() { return null; }'']"
    by (simp add: blocks_def classify_def blockFileName_def extractFileName_def patterns_def
          trim_def endsWith_def rx_eval codeBlockRegex_def srcUrl_def)
  have "matchAll codeBlockRegex srcUrl \<noteq> []"
    using blocks_Nil [of srcUrl] by (auto simp: b)
  then show ?thesis
    by (simp add: processCode_fenced b missing_def exposeMain_def ensureHtml_def keys_def
          endsWith_def Let_def)
qed

lemma processCode_srcLabelled:
  "processCode srcLabelled = [(''styles.css'', ''const Hi = () => <b>hi</b>;'')]"
proof -
  have b: "blocks srcLabelled =
             [Plain ''styles.css'' ''body { margin: 0; }'',
              Plain ''styles.css'' ''function App() { return <Hi/>; }'',
              Plain ''styles.css'' ''const Hi = () => <b>hi</b>;'']"
    by (simp add: blocks_def classify_def blockFileName_def extractFileName_def patterns_def
          trim_def endsWith_def rx_eval codeBlockRegex_def srcLabelled_def upt_rec)
  have "matchAll codeBlockRegex srcLabelled \<noteq> []"
    using blocks_Nil [of srcLabelled] by (auto simp: b)
  then show ?thesis
    by (simp add: processCode_fenced b missing_def exposeMain_def ensureHtml_def keys_def
          endsWith_def Let_def)
qed

lemma transform_comment:
  "transformForBrowser ''// see e.g. the docs\<newline>function App() { return null; }'' =
     ''// see e.g. the docs\<newline>function App() { return null; }\<newline>window.App = App;''"
  by (simp add: tf_eval rx_eval)

lemma search_main_comment:
  "search mainComponentRegex
     ''// see e.g. the docs\<newline>function App() { return null; }\<newline>window.App = App;\<newline>\<newline>'' \<noteq> None"
  by (simp add: mainComponentRegex_def rx_eval)

lemma processCode_srcComment:
  "processCode srcComment =
     [(''App.tsx'',
       ''// see e.g. the docs\<newline>function App() { return null; }\<newline>window.App = App;\<newline>\<newline>''),
      (''see e.g'', ''const Hi = () => null;''),
      (''index.html'', createIndexHtml ''Generated App'')]"
proof -
  have b: "blocks srcComment =
             [Module ''// see e.g. the docs\<newline>function App() { return null; }'',
              Plain ''see e.g'' ''const Hi = () => null;'']"
    by (simp add: blocks_def classify_def blockFileName_def extractFileName_def patterns_def
          trim_def endsWith_def rx_eval codeBlockRegex_def srcComment_def upt_rec)
  have "matchAll codeBlockRegex srcComment \<noteq> []"
    using blocks_Nil [of srcComment] by (auto simp: b)
  then show ?thesis
    using search_main_comment
    by (auto simp add: processCode_fenced b store.simps transform_comment missing_def
          contentOf_def exposeMain_def ensureHtml_def keys_def endsWith_def Let_def
          split: option.splits)
qed

subsection \<open>Example deployments\<close>

lemmas fs_eval =
  deploy_def defaultDeployment_def newPreviewDeployment_def orElse_def pathJoin_def joinPath_def
  dirname_def ancestors_def below_def isFile_def isDirectory_def pathExists_def ensureDir_def
  writeFile_def writeProcessed_def createPackageJson_def moved_def copySrc_def buildProject_def
  freshDisk_def app42_def missing_def Let_def upt_rec

lemma deploy_srcUrl:
  "deploy defaultDeployment (\<lambda>k. 0) freshDisk srcUrl ''42'' =
     Inr (''http://app-42.staging.yourdomain.com'',
          Some \<lparr> regular =
                   [(app42 [''react.dev''], Text ''export default function App() { return null; }''),
                    (app42 [''package.json''], Json (packageJson ''app-42'')),
                    (app42 [''index.html''], Text (createIndexHtml ''Generated App''))],
                 directories =
                   [(True, [''var'']), (True, [''var'', ''www'']),
                    (True, [''var'', ''www'', ''staging'']), app42 []] \<rparr>)"
  by (simp add: fs_eval processCode_srcUrl)

text \<open>
  The module of a text without fences is stored as \<^verbatim>\<open>src/App.tsx\<close>; the build step
  copies it to \<^verbatim>\<open>App.tsx\<close> in the deployment directory.
\<close>

lemma deploy_srcModule:
  "deploy defaultDeployment (\<lambda>k. 0) freshDisk srcModule ''42'' =
     Inr (''http://app-42.staging.yourdomain.com'',
          Some \<lparr> regular =
                   [(app42 [''src'', ''App.tsx''], Text srcModule),
                    (app42 [''index.html''], Text (createIndexHtml ''React App'')),
                    (app42 [''package.json''], Json (packageJson ''app-42'')),
                    (app42 [''App.tsx''], Text srcModule)],
                 directories =
                   [(True, [''var'']), (True, [''var'', ''www'']),
                    (True, [''var'', ''www'', ''staging'']), app42 [], app42 [''src'']] \<rparr>)"
  by (simp add: fs_eval processCode_srcModule)

text \<open>
  A document that a comment names \<^verbatim>\<open>page.html\<close> keeps its name; the build step adds the
  \<^verbatim>\<open>index.html\<close> that the file set lacks.
\<close>

lemma deploy_srcNamed:
  "deploy defaultDeployment (\<lambda>k. 0) freshDisk srcNamed ''42'' =
     Inr (''http://app-42.staging.yourdomain.com'',
          Some \<lparr> regular =
                   [(app42 [''page.html''], Text ''<p>hi</p>''),
                    (app42 [''package.json''], Json (packageJson ''app-42'')),
                    (app42 [''index.html''], Text (createIndexHtml ''Generated App''))],
                 directories =
                   [(True, [''var'']), (True, [''var'', ''www'']),
                    (True, [''var'', ''www'', ''staging'']), app42 []] \<rparr>)"
  by (simp add: fs_eval processCode_srcNamed)

lemma index_loads_App_tsx: \<open>str_includes (createIndexHtml t) ''src="./App.tsx"''\<close>
proof -
  have \<open>str_includes indexTail ''src="./App.tsx"''\<close>
    by (simp add: indexTail_def)
  then show ?thesis
    unfolding createIndexHtml_def by (intro includes_append_left)
qed


subsection \<open>The file names of processCode\<close>

lemma keys_foldl_store_subset:
  "set (keys (foldl store fs bs)) \<subseteq>
     set (keys fs) \<union> {''App.tsx''} \<union> {f. \<exists>c. Plain f c \<in> set bs}"
proof (induction bs arbitrary: fs)
  case Nil
  then show ?case by auto
next
  case (Cons b bs)
  have "set (keys (store fs b)) \<subseteq> set (keys fs) \<union> {''App.tsx''} \<union> {f. \<exists>c. b = Plain f c}"
    by (cases b) (auto simp: keys_store simp del: store.simps)
  with Cons [of "store fs b"] show ?case by auto
qed

lemma fenced_keys_subset:
  assumes "matchAll codeBlockRegex src \<noteq> []"
  shows "set (keys (processCode src)) \<subseteq>
           {''App.tsx'', ''index.html''} \<union> {f. \<exists>c. Plain f c \<in> set (blocks src)}"
proof -
  let ?fs = "foldl store [] (blocks src)"
  have "set (keys (processCode src)) \<subseteq> insert ''index.html'' (set (keys (exposeMain ?fs)))"
    using keys_ensureHtml [of "exposeMain ?fs"] by (auto simp: processCode_fenced [OF assms])
  moreover have "set (keys (exposeMain ?fs)) \<subseteq>
                   {''App.tsx''} \<union> {f. \<exists>c. Plain f c \<in> set (blocks src)}"
    using keys_foldl_store_subset [of "[]" "blocks src"] by (simp add: keys_exposeMain keys_Nil)
  ultimately show ?thesis by auto
qed

lemma reactFile_src_App: "reactFile ''src/App.tsx''"
  by (simp add: reactFile_def endsWith_def)

lemma unfenced_keys:
  assumes "\<not> str_includes src ''```''"
  shows "keys (processCode src) = [''src/App.tsx'', ''index.html''] \<or>
         keys (processCode src) = [''index.html'']"
  using assms by (simp add: processCode_def keys_def Let_def)

lemma nomatch_keys:
  assumes "str_includes src ''```''" and "matchAll codeBlockRegex src = []"
  shows "keys (processCode src) = [''index.html'']"
  using assms by (simp add: processCode_def keys_def)

lemma keys_srcTwo: "set (keys (processCode srcTwo)) = {''App.tsx'', ''index.html''}"
proof -
  have m: "moduleBlocks srcTwo \<noteq> []"
    by (simp add: moduleBlocks_def blocks_srcTwo)
  then have ne: "matchAll codeBlockRegex srcTwo \<noteq> []"
    by (rule moduleBlocks_matches)
  have "set (keys (processCode srcTwo)) \<subseteq> {''App.tsx'', ''index.html''}"
    using fenced_keys_subset [OF ne] by (simp add: blocks_srcTwo)
  moreover have a: "''App.tsx'' \<in> set (keys (processCode srcTwo))"
    using fenced_keys(3) [OF ne m] .
  moreover have "''index.html'' \<in> set (keys (processCode srcTwo))"
    using fenced_keys(4) [OF ne a reactFile_App] .
  ultimately show ?thesis by auto
qed

lemma includes_srcTwo: "str_includes srcTwo ''```''"
  by (simp add: srcTwo_def)

text \<open>
  For a text without a fence marker that shows no sign of a module or a document,
  \<^verbatim>\<open>processCode\<close> returns exactly one file, \<^verbatim>\<open>index.html\<close>, which wraps the trimmed
  text.
\<close>

lemma implicit_block:
  assumes "\<not> str_includes src ''```''"
    and "\<not> str_includes (trim src) ''import React''"
    and "\<not> str_includes (trim src) ''export default function''"
    and "\<not> str_includes (trim src) ''<!DOCTYPE html>''"
    and "\<not> str_includes (trim src) ''<html''"
  shows "processCode src = [(''index.html'', wrapInHtml (trim src))] \<and>
         str_includes (wrapInHtml (trim src)) (trim src)"
proof -
  have "str_includes (wrapInHtml (trim src)) (trim src)"
    using assms(5) by (simp add: wrapInHtml_def includes_middle)
  with assms show ?thesis
    by (simp add: processCode_def Let_def)
qed

subsection \<open>The claims about the deployment service\<close>

text \<open>
  C6 fails on the code. The entry document reads the component from \<^verbatim>\<open>window.App\<close>.
  For a fenced block whose component is an arrow function (and has no default export)
  the application module \<^verbatim>\<open>App.tsx\<close> never assigns \<^verbatim>\<open>window.App\<close>: the transform only
  looks for \<^verbatim>\<open>function\<close> declarations. For a module without fences the file
  \<^verbatim>\<open>src/App.tsx\<close> is the text as it came, not transformed at all, and does not assign
  it either.
\<close>

theorem global_binding_missing:
  "processCode srcArrow =
     [(''App.tsx'', ''const App = () => <b>hi</b>;\<newline>\<newline>''),
      (''index.html'', createIndexHtml ''Generated App'')] \<and>
   \<not> str_includes ''const App = () => <b>hi</b>;\<newline>\<newline>'' ''window.App'' \<and>
   str_includes (createIndexHtml ''Generated App'') ''window.App'' \<and>
   processCode srcModule =
     [(''src/App.tsx'', srcModule), (''index.html'', createIndexHtml ''React App'')] \<and>
   \<not> str_includes srcModule ''window.App'' \<and>
   str_includes (createIndexHtml ''React App'') ''window.App''"
proof -
  have "\<not> str_includes ''const App = () => <b>hi</b>;\<newline>\<newline>'' ''window.App''"
    by simp
  moreover have "\<not> str_includes srcModule ''window.App''"
    by (simp add: srcModule_def)
  ultimately show ?thesis
    by (simp only: processCode_srcArrow processCode_srcModule index_refers_to_window_App
          simp_thms)
qed

text \<open>
  C7 fails on the code. The reply gives a link in its prose and then one fenced block, an
  application module (tagged \<^verbatim>\<open>tsx\<close>, a component exported by default).
  \<^verbatim>\<open>extractFileName\<close> looks for a comment with a file name in the whole text before the
  block, and takes the \<^verbatim>\<open>//\<close> of the link \<^verbatim>\<open>https://react.dev\<close> for one: \<^verbatim>\<open>processCode\<close>
  stores the module under the name \<^verbatim>\<open>react.dev\<close>, not in \<^verbatim>\<open>App.tsx\<close>. After \<^verbatim>\<open>deploy\<close>
  the deployment directory holds \<^verbatim>\<open>react.dev\<close>, the synthesized \<^verbatim>\<open>package.json\<close> and the
  \<^verbatim>\<open>index.html\<close> that \<^verbatim>\<open>buildProject\<close> writes; that document loads \<^verbatim>\<open>./App.tsx\<close>, which
  is not there. A block with no text before it goes to \<^verbatim>\<open>App.tsx\<close>
  (\<open>processCode_srcArrow\<close>), and the module of a text without fences reaches \<^verbatim>\<open>App.tsx\<close>
  through the build step (\<open>deploy_srcModule\<close>).
\<close>

theorem module_named_after_link:
  \<open>processCode srcUrl = [(''react.dev'', ''export default function App() { return null; }'')] \<and>
   deploy defaultDeployment (\<lambda>k. 0) freshDisk srcUrl ''42'' =
     Inr (''http://app-42.staging.yourdomain.com'',
          Some \<lparr> regular =
                   [(app42 [''react.dev''], Text ''export default function App() { return null; }''),
                    (app42 [''package.json''], Json (packageJson ''app-42'')),
                    (app42 [''index.html''], Text (createIndexHtml ''Generated App''))],
                 directories =
                   [(True, [''var'']), (True, [''var'', ''www'']),
                    (True, [''var'', ''www'', ''staging'']), app42 []] \<rparr>) \<and>
   \<not> pathExists (the (snd (projr (deploy defaultDeployment (\<lambda>k. 0) freshDisk srcUrl ''42''))))
        (app42 [''App.tsx'']) \<and>
   str_includes (createIndexHtml ''Generated App'') ''src="./App.tsx"''\<close>
proof -
  have "\<not> pathExists (the (snd (projr (deploy defaultDeployment (\<lambda>k. 0) freshDisk srcUrl ''42''))))
          (app42 [''App.tsx''])"
    by (simp add: deploy_srcUrl) (simp add: pathExists_def isFile_def isDirectory_def app42_def)
  then show ?thesis
    by (simp only: processCode_srcUrl deploy_srcUrl index_loads_App_tsx simp_thms)
qed

text \<open>
  C8 fails on the code. A text with a fence marker but no complete fenced block (here a
  block that is never closed) is not treated as one implicit block: the file set is one
  \<^verbatim>\<open>index.html\<close> that wraps a fixed comment, and the text is gone.
\<close>

theorem unclosed_fence_drops_text:
  "str_includes srcCut ''```'' \<and>
   matchAll codeBlockRegex srcCut = [] \<and>
   processCode srcCut =
     [(''index.html'', wrapInHtml ''<!-- No valid code blocks found in the response -->'')] \<and>
   processCode srcCut \<noteq> [(''index.html'', wrapInHtml (trim srcCut))] \<and>
   \<not> str_includes (wrapInHtml ''<!-- No valid code blocks found in the response -->'')
         ''function App''"
proof -
  have "str_includes srcCut ''```''"
    by (simp add: srcCut_def)
  moreover have "\<not> str_includes (wrapInHtml ''<!-- No valid code blocks found in the response -->'')
         ''function App''"
    by (simp add: wrapInHtml_def wrapHead_def wrapTail_def)
  ultimately show ?thesis
    using wrap_differs by (simp add: processCode_srcCut matchAll_srcCut)
qed

text \<open>
  The blocks that the loop of \<^verbatim>\<open>processCode\<close> takes for React files are merged: when
  there are two or more of them, \<^verbatim>\<open>App.tsx\<close> holds their transformed contents in
  detection order, each followed by an empty line, and after them at most the statement
  that exposes the main component.
\<close>

lemma merged_modules:
  assumes "2 \<le> length (moduleBlocks src)"
  shows "(\<exists>suffix. map_of (processCode src) ''App.tsx'' =
                     Some (combined (moduleBlocks src) @ suffix) \<and>
                   (suffix = [] \<or> (\<exists>n. suffix = windowApp n @ ''\<newline>''))) \<and>
         (\<forall>f \<in> set (keys (processCode src)). reactFile f \<longrightarrow> f = ''App.tsx'') \<and>
         distinct (keys (processCode src)) \<and>
         ''App.tsx'' \<in> set (keys (processCode src)) \<and>
         ''index.html'' \<in> set (keys (processCode src))"
proof -
  from assms have m: "moduleBlocks src \<noteq> []"
    by auto
  then have ne: "matchAll codeBlockRegex src \<noteq> []"
    by (rule moduleBlocks_matches)
  have a: "''App.tsx'' \<in> set (keys (processCode src))"
    using fenced_keys(3) [OF ne m] .
  have i: "''index.html'' \<in> set (keys (processCode src))"
    using fenced_keys(4) [OF ne a reactFile_App] .
  from fenced_app [OF m] fenced_keys(1,2) [OF ne] a i show ?thesis
    by blast
qed

text \<open>
  C9 fails on the code. In the first text three comments name the files of three blocks;
  the second and the third block are application modules. \<^verbatim>\<open>extractFileName\<close> searches
  the whole text before a block and takes the first comment it finds, so every block is
  named \<^verbatim>\<open>styles.css\<close>: the file set is that one file with the content of the last block,
  and no \<^verbatim>\<open>App.tsx\<close>. In the second text the code of the first module has the comment
  \<^verbatim>\<open>// see e.g. the docs\<close>, which names the second module \<^verbatim>\<open>see e.g\<close>: the two modules
  end in two files, and \<^verbatim>\<open>App.tsx\<close> holds the first one only. Both come from one
  defect, which also names a module after a link in the prose: the name is looked for in
  all that precedes the block, not in a comment right before it.
\<close>

theorem modules_not_merged:
  "processCode srcLabelled = [(''styles.css'', ''const Hi = () => <b>hi</b>;'')] \<and>
   processCode srcComment =
     [(''App.tsx'',
       ''// see e.g. the docs\<newline>function App() { return null; }\<newline>window.App = App;\<newline>\<newline>''),
      (''see e.g'', ''const Hi = () => null;''),
      (''index.html'', createIndexHtml ''Generated App'')] \<and>
   \<not> str_includes (contentOf (processCode srcComment) ''App.tsx'') ''const Hi''"
  by (simp add: processCode_srcLabelled processCode_srcComment contentOf_def)

end
